theory Spec2Isabelle
  imports Complex_Main
begin

section \<open>The connection core of arangojs (src/connection.ts)\<close>

text \<open>
  A shallow embedding of the class \<^verbatim>\<open>Connection\<close>: the host registry, the request
  encoder, the response classifier and the scheduler with its load balancing,
  failover and leader redirect. Mutation of \<^verbatim>\<open>this\<close> is explicit state passing on
  the record \<open>conn\<close>. The asynchronous transport is a list of pending calls kept
  beside the connection: issuing a call appends to it, and the completion of a
  call is an event that removes one entry and runs the callback of
  \<^verbatim>\<open>_runQueue\<close>. What the caller observes (its callback being invoked, an
  exception leaving a method) is appended to a log.
\<close>

subsection \<open>JavaScript values\<close>

text \<open>
  Numbers that serve as indices: an integer or NaN. The remainder \<^verbatim>\<open>a % n\<close> of
  JavaScript is NaN for \<open>n = 0\<close> and takes the sign of the dividend.
\<close>

datatype jsnum = NaN | Num int

fun js_plus1 :: "jsnum \<Rightarrow> jsnum" where
  "js_plus1 NaN = NaN"
| "js_plus1 (Num a) = Num (a + 1)"

fun js_rem :: "jsnum \<Rightarrow> nat \<Rightarrow> jsnum" where
  "js_rem NaN n = NaN"
| "js_rem (Num a) n = (if n = 0 then NaN else Num (sgn a * (\<bar>a\<bar> mod int n)))"

text \<open>
  JSON-like values: what \<^verbatim>\<open>JSON.parse\<close> returns and what a caller passes as a
  request body. Numbers are integers; an object is its list of own properties.
\<close>

datatype json =
    JNull
  | JBool bool
  | JNum int
  | JStr string
  | JArr "json list"
  | JObj "(string \<times> json) list"

text \<open>Truthiness (\<^verbatim>\<open>if (v)\<close>, \<^verbatim>\<open>v && ...\<close>, \<^verbatim>\<open>v || ...\<close>).\<close>

fun truthy :: "json \<Rightarrow> bool" where
  "truthy JNull = False"
| "truthy (JBool b) = b"
| "truthy (JNum n) = (n \<noteq> 0)"
| "truthy (JStr s) = (s \<noteq> [])"
| "truthy (JArr xs) = True"
| "truthy (JObj kvs) = True"

text \<open>\<^verbatim>\<open>typeof v === "object"\<close> (true of \<^verbatim>\<open>null\<close> as well).\<close>

fun typeof_object :: "json \<Rightarrow> bool" where
  "typeof_object JNull = True"
| "typeof_object (JArr xs) = True"
| "typeof_object (JObj kvs) = True"
| "typeof_object v = False"

subsection \<open>Host registry\<close>

text \<open>
  \<^verbatim>\<open>Array.prototype.indexOf\<close>: the first index at which the element occurs,
  \<open>-1\<close> when it does not occur.
\<close>

fun indexOf :: "'a list \<Rightarrow> 'a \<Rightarrow> int" where
  "indexOf [] x = -1"
| "indexOf (y # ys) x =
     (if y = x then 0
      else (let i = indexOf ys x in if i = -1 then -1 else i + 1))"

text \<open>\<^verbatim>\<open>_sanitizeEndpointUrl\<close>: only the scheme prefix is rewritten.\<close>

definition sanitizeEndpointUrl :: "string \<Rightarrow> string" where
  "sanitizeEndpointUrl url =
     (if take 4 url = ''tcp:'' then ''http:'' @ drop 4 url
      else if take 4 url = ''ssl:'' then ''https:'' @ drop 4 url
      else url)"

text \<open>
  A transport handle, as \<^verbatim>\<open>createRequest(url, agentOptions, agent)\<close> returns it.
  The agent and its options are the same for every handle of one connection, so
  a handle is identified by the URL it was created for.
\<close>

datatype handle = Transport string

definition createRequest :: "string \<Rightarrow> handle" where
  "createRequest url = Transport url"

text \<open>The argument of \<^verbatim>\<open>addToHostList\<close>: \<^verbatim>\<open>string | string[]\<close>.\<close>

datatype urls_arg = One string | Many "string list"

fun as_array :: "urls_arg \<Rightarrow> string list" where
  "as_array (One u) = [u]"
| "as_array (Many us) = us"

text \<open>
  The fields of the class. \<open>databaseName\<close> is \<open>None\<close> for \<^verbatim>\<open>false\<close> (an absolute
  connection). \<open>maxTasks\<close> is declared \<^verbatim>\<open>number\<close>; the counter \<open>activeTasks\<close> starts at
  0 and changes by 1, so it is an integer.
\<close>

datatype LoadBalancingStrategy = NONE | ROUND_ROBIN | ONE_RANDOM

text \<open>
  Numbers in general: NaN, a finite value (a rational: every finite double is
  one) or an infinity. \<open>reached a m\<close> is the comparison \<^verbatim>\<open>a >= m\<close> of an integer
  counter \<open>a\<close> with a number \<open>m\<close>; every comparison with NaN is false.
\<close>

datatype jsnumber = NotANumber | Finite rat | PlusInfinity | MinusInfinity

fun times_2 :: "jsnumber \<Rightarrow> jsnumber" where
  "times_2 NotANumber = NotANumber"
| "times_2 (Finite q) = Finite (q * 2)"
| "times_2 PlusInfinity = PlusInfinity"
| "times_2 MinusInfinity = MinusInfinity"

fun reached :: "int \<Rightarrow> jsnumber \<Rightarrow> bool" where
  "reached a NotANumber = False"
| "reached a (Finite q) = (q \<le> of_int a)"
| "reached a PlusInfinity = False"
| "reached a MinusInfinity = True"

text \<open>
  Values of the entries of \<^verbatim>\<open>agentOptions\<close> (\<^verbatim>\<open>{ [key: string]: any }\<close>):
  \<^verbatim>\<open>undefined\<close>, \<^verbatim>\<open>null\<close>, booleans and numbers. Strings and objects as option
  values are not modelled. \<open>ToNumber\<close> is the conversion that \<^verbatim>\<open>*=\<close> and \<^verbatim>\<open>>=\<close> apply to
  an operand.
\<close>

datatype jsval = Undefined | Null | Boolean bool | Number jsnumber

fun truthy_val :: "jsval \<Rightarrow> bool" where
  "truthy_val Undefined = False"
| "truthy_val Null = False"
| "truthy_val (Boolean b) = b"
| "truthy_val (Number NotANumber) = False"
| "truthy_val (Number (Finite q)) = (q \<noteq> 0)"
| "truthy_val (Number PlusInfinity) = True"
| "truthy_val (Number MinusInfinity) = True"

fun ToNumber :: "jsval \<Rightarrow> jsnumber" where
  "ToNumber Undefined = NotANumber"
| "ToNumber Null = Finite 0"
| "ToNumber (Boolean b) = Finite (if b then 1 else 0)"
| "ToNumber (Number n) = n"

record url_info =
  pathname :: string
  search :: "string option"

text \<open>\<^verbatim>\<open>task.options\<close>: the wire request descriptor handed to the transport.\<close>

record wire_request =
  w_method :: string
  w_expectBinary :: bool
  w_url :: url_info
  w_headers :: "string \<rightharpoonup> string"
  w_body :: "json option"

text \<open>
  A task. \<^verbatim>\<open>resolve\<close> and \<^verbatim>\<open>reject\<close> are closures over the caller's callback
  \<^verbatim>\<open>cb\<close> and over \<^verbatim>\<open>expectBinary\<close> (the same value as \<open>w_expectBinary\<close>); the
  callback is represented by its identity \<open>task_cb\<close>.
\<close>

record task =
  task_host :: "int option"
  task_options :: wire_request
  task_cb :: nat

record conn =
  activeTasks :: int
  agentOptions :: "string \<rightharpoonup> jsval"
  arangoVersion :: int
  databaseName :: "string option"
  headers :: "string \<rightharpoonup> string"
  loadBalancingStrategy :: LoadBalancingStrategy
  useFailOver :: bool
  maxTasks :: jsnumber
  queue :: "task list"
  hosts :: "handle list"
  urls :: "string list"
  activeHost :: jsnum

text \<open>
  \<^verbatim>\<open>addToHostList\<close>. The filter compares with the registry as it was before the
  call; the returned indices are looked up in the registry after the push.
\<close>

definition addToHostList :: "urls_arg \<Rightarrow> 'a conn_scheme \<Rightarrow> int list \<times> 'a conn_scheme" where
  "addToHostList arg c =
     (let cleanUrls = map sanitizeEndpointUrl (as_array arg);
          newUrls = filter (\<lambda>url. indexOf (urls c) url = -1) cleanUrls;
          c' = c\<lparr>urls := urls c @ newUrls,
                 hosts := hosts c @ map createRequest newUrls\<rparr>
      in (map (indexOf (urls c')) cleanUrls, c'))"

subsection \<open>The runtime\<close>

text \<open>
  What the code takes from its environment and from modules that are not part
  of this file: the platform flag of \<^verbatim>\<open>./util/request\<close>, \<^verbatim>\<open>JSON.parse\<close> (\<open>None\<close>
  when it throws, applied to the bytes of the body), \<^verbatim>\<open>JSON.stringify\<close>,
  \<^verbatim>\<open>byteLength(body, "utf-8")\<close> of \<^verbatim>\<open>./util/bytelength\<close>, \<^verbatim>\<open>querystring.stringify\<close>
  and the one draw of \<^verbatim>\<open>Math.random()\<close> the constructor makes.
\<close>

record runtime =
  isBrowser :: bool
  JSON_parse :: "string \<Rightarrow> json option"
  JSON_stringify :: "json \<Rightarrow> string"
  byteLength :: "json \<Rightarrow> nat"
  querystringify :: "(string \<times> json) list \<Rightarrow> string"
  Math_random :: rat

text \<open>
  \<^verbatim>\<open>String(n)\<close> for an integer: its decimal digits (JavaScript switches to
  exponent notation from \<open>10^21\<close> on, which no counter or version here reaches).
\<close>

fun decimal :: "nat \<Rightarrow> string" where
  "decimal n =
     (if n < 10 then [''0123456789'' ! n]
      else decimal (n div 10) @ [''0123456789'' ! (n mod 10)])"

definition String_int :: "int \<Rightarrow> string" where
  "String_int i = (if i < 0 then CHR ''-'' # decimal (nat (- i)) else decimal (nat i))"

text \<open>\<^verbatim>\<open>xs.join(sep)\<close> on an array of strings.\<close>

fun join :: "string \<Rightarrow> string list \<Rightarrow> string" where
  "join sep [] = []"
| "join sep [x] = x"
| "join sep (x # y # ys) = x @ sep @ join sep (y # ys)"

text \<open>
  \<^verbatim>\<open>String(v)\<close>. The encoder applies it to truthy values that are not objects;
  on arrays it joins the elements with commas, \<^verbatim>\<open>null\<close> elements being empty.
\<close>

fun String_json :: "json \<Rightarrow> string" where
  "String_json (JStr s) = s"
| "String_json (JNum n) = String_int n"
| "String_json (JBool b) = (if b then ''true'' else ''false'')"
| "String_json JNull = ''null''"
| "String_json (JObj kvs) = ''[object Object]''"
| "String_json (JArr xs) =
     join '','' (map (\<lambda>x. if x = JNull then [] else String_json x) xs)"

subsection \<open>Request encoder\<close>

datatype qs_arg = QsString string | QsObject "(string \<times> json) list"

text \<open>
  \<^verbatim>\<open>RequestOptions\<close>. An absent field is \<open>None\<close>; the three flags and
  \<^verbatim>\<open>absolutePath\<close> default to \<^verbatim>\<open>false\<close> and are given as booleans; absent headers
  are the empty map.
\<close>

record RequestOptions =
  opt_host :: "int option"
  opt_method :: "string option"
  opt_body :: "json option"
  opt_expectBinary :: bool
  opt_isBinary :: bool
  opt_isJsonStream :: bool
  opt_headers :: "string \<rightharpoonup> string"
  opt_absolutePath :: bool
  opt_basePath :: "string option"
  opt_path :: "string option"
  opt_qs :: "qs_arg option"

datatype exn = TypeError | Error string

definition databasePath :: "'a conn_scheme \<Rightarrow> string" where
  "databasePath c =
     (case databaseName c of None \<Rightarrow> [] | Some name \<Rightarrow> ''/_db/'' @ name)"

fun truthy_str :: "string option \<Rightarrow> bool" where
  "truthy_str None = False"
| "truthy_str (Some s) = (s \<noteq> [])"

definition buildUrl :: "runtime \<Rightarrow> 'a conn_scheme \<Rightarrow> RequestOptions \<Rightarrow> url_info" where
  "buildUrl rt c opts =
     (let pathname0 =
            (if \<not> opt_absolutePath opts
             then databasePath c @
                  (if truthy_str (opt_basePath opts) then the (opt_basePath opts) else [])
             else []);
          pathname1 =
            (if truthy_str (opt_path opts) then pathname0 @ the (opt_path opts) else pathname0);
          search1 =
            (case opt_qs opts of
               None \<Rightarrow> None
             | Some (QsString q) \<Rightarrow> (if q \<noteq> [] then Some (CHR ''?'' # q) else None)
             | Some (QsObject kvs) \<Rightarrow> Some (CHR ''?'' # querystringify rt kvs))
      in \<lparr>pathname = pathname1, search = search1\<rparr>)"

definition CRLF :: string where
  "CRLF = [CHR 0x0D, CHR 0x0A]"

text \<open>
  The first statements of \<^verbatim>\<open>request\<close>: the body as it goes on the wire and the
  content type. \<^verbatim>\<open>body.map\<close> exists on arrays only: with \<^verbatim>\<open>isJsonStream\<close> an
  object that is not an array raises a TypeError.
\<close>

definition encodeBody ::
    "runtime \<Rightarrow> RequestOptions \<Rightarrow> exn + (json option \<times> string)" where
  "encodeBody rt opts =
     (if opt_isBinary opts then Inr (opt_body opts, ''application/octet-stream'')
      else case opt_body opts of
        None \<Rightarrow> Inr (None, ''text/plain'')
      | Some b \<Rightarrow>
          if \<not> truthy b then Inr (Some b, ''text/plain'')
          else if typeof_object b then
            (if opt_isJsonStream opts then
               (case b of
                  JArr xs \<Rightarrow>
                    Inr (Some (JStr (join CRLF (map (JSON_stringify rt) xs) @ CRLF)),
                         ''application/x-ldjson'')
                | _ \<Rightarrow> Inl TypeError)
             else Inr (Some (JStr (JSON_stringify rt b)), ''application/json''))
          else Inr (Some (JStr (String_json b)), ''text/plain''))"

text \<open>
  The headers of the wire request: the connection's defaults, the content type
  and the version, the content length outside the browser, and the per-call
  headers over all of them.
\<close>

definition truthy_body :: "json option \<Rightarrow> bool" where
  "truthy_body b = (case b of None \<Rightarrow> False | Some v \<Rightarrow> truthy v)"

definition requestHeaders ::
    "runtime \<Rightarrow> 'a conn_scheme \<Rightarrow> RequestOptions \<Rightarrow> json option \<Rightarrow> string
       \<Rightarrow> (string \<rightharpoonup> string)" where
  "requestHeaders rt c opts body contentType =
     (let extraHeaders0 =
            (headers c)(''content-type'' \<mapsto> contentType,
                        ''x-arango-version'' \<mapsto> String_int (arangoVersion c));
          extraHeaders =
            (if \<not> isBrowser rt
             then extraHeaders0(''content-length'' \<mapsto>
                    String_int (if truthy_body body then int (byteLength rt (the body)) else 0))
             else extraHeaders0)
      in extraHeaders ++ opt_headers opts)"

definition makeTask :: "runtime \<Rightarrow> 'a conn_scheme \<Rightarrow> RequestOptions \<Rightarrow> nat
    \<Rightarrow> json option \<Rightarrow> string \<Rightarrow> task" where
  "makeTask rt c opts cb body contentType =
     \<lparr>task_host = opt_host opts,
      task_options =
        \<lparr>w_method = (case opt_method opts of None \<Rightarrow> ''GET'' | Some m \<Rightarrow> m),
         w_expectBinary = opt_expectBinary opts,
         w_url = buildUrl rt c opts,
         w_headers = requestHeaders rt c opts body contentType,
         w_body = body\<rparr>,
      task_cb = cb\<rparr>"

subsection \<open>Response classifier\<close>

text \<open>
  Modelled from the spec: the type \<^verbatim>\<open>ArangojsResponse\<close> is declared in
  \<^verbatim>\<open>./util/request\<close>, which is not part of this file. The transport produces
  "a response exposing status code, header mapping, and raw body bytes"; the
  scheduler adds the index of the host that answered. The body is a Buffer, an
  object, hence truthy even when it is empty.
\<close>

record 'b response =
  statusCode :: "int option"
  res_headers :: "string \<rightharpoonup> string"
  res_body :: 'b
  res_host :: "nat option"

text \<open>
  What \<^verbatim>\<open>parsedBody\<close> holds: the Buffer itself, the text
  \<^verbatim>\<open>res.body.toString("utf-8")\<close> of the bytes given, or the decoded JSON value.
\<close>

datatype body_val = Raw string | Text string | Parsed json

definition with_body :: "'a response \<Rightarrow> 'b \<Rightarrow> 'b response" where
  "with_body res b =
     \<lparr>statusCode = statusCode res, res_headers = res_headers res,
      res_body = b, res_host = res_host res\<rparr>"

datatype err = Err string

text \<open>
  What the caller's callback receives: \<^verbatim>\<open>cb(err)\<close> from \<^verbatim>\<open>reject\<close>; \<^verbatim>\<open>cb(e)\<close> with the
  syntax error of \<^verbatim>\<open>JSON.parse\<close> and \<^verbatim>\<open>e.response = res\<close>;
  \<^verbatim>\<open>cb(new ArangoError(res))\<close>; \<^verbatim>\<open>cb(new HttpError(res))\<close>; \<^verbatim>\<open>cb(null, res)\<close>.
\<close>

datatype outcome =
    TransportError err
  | DecodeError "string response"
  | ApplicationError "body_val response"
  | HttpError "body_val response"
  | Success "body_val response"

text \<open>
  The pattern \<^verbatim>\<open>/\/(json|javascript)(\W|$)/\<close>: somewhere a slash, then one of the
  two words, then a character outside \<^verbatim>\<open>[A-Za-z0-9_]\<close> or the end.
\<close>

definition word_char :: "char \<Rightarrow> bool" where
  "word_char c =
     (let n = of_char c :: nat
      in (48 \<le> n \<and> n \<le> 57) \<or> (65 \<le> n \<and> n \<le> 90) \<or> (97 \<le> n \<and> n \<le> 122) \<or> n = 95)"

definition word_then_boundary :: "string \<Rightarrow> string \<Rightarrow> bool" where
  "word_then_boundary w cs =
     (take (length w) cs = w \<and>
      (case drop (length w) cs of [] \<Rightarrow> True | d # ds \<Rightarrow> \<not> word_char d))"

fun MIME_JSON :: "string \<Rightarrow> bool" where
  "MIME_JSON [] = False"
| "MIME_JSON (c # cs) =
     ((c = CHR ''/'' \<and> (word_then_boundary ''json'' cs \<or> word_then_boundary ''javascript'' cs))
      \<or> MIME_JSON cs)"

fun truthy_parsed :: "body_val \<Rightarrow> bool" where
  "truthy_parsed (Raw bs) = True"
| "truthy_parsed (Text s) = (s \<noteq> [])"
| "truthy_parsed (Parsed v) = truthy v"

text \<open>
  \<^verbatim>\<open>parsedBody.hasOwnProperty(name)\<close> for a name that is neither \<^verbatim>\<open>length\<close> nor an
  array index, as the four names the classifier asks for are. The method is
  looked up on the value itself. An object decoded from JSON that has an own
  property named \<^verbatim>\<open>hasOwnProperty\<close> shadows the method of \<^verbatim>\<open>Object.prototype\<close> with
  a value that is not a function, and the call raises a TypeError. Otherwise
  only such an object has own properties of these names: Buffers, strings and
  arrays own their indices (strings and arrays their length) and nothing else;
  numbers and booleans own nothing.
\<close>

fun hasOwnProperty :: "body_val \<Rightarrow> string \<Rightarrow> exn + bool" where
  "hasOwnProperty (Parsed (JObj kvs)) name =
     (if ''hasOwnProperty'' \<in> set (map fst kvs) then Inl TypeError
      else Inr (name \<in> set (map fst kvs)))"
| "hasOwnProperty v name = Inr False"

text \<open>\<^verbatim>\<open>a && b\<close> where evaluating an operand may raise: \<open>b\<close> counts only if \<open>a\<close> is true.\<close>

fun js_and :: "exn + bool \<Rightarrow> exn + bool \<Rightarrow> exn + bool" where
  "js_and (Inl e) b = Inl e"
| "js_and (Inr False) b = Inr False"
| "js_and (Inr True) b = b"

text \<open>
  The \<^verbatim>\<open>resolve\<close> closure of a task: the caller's callback is invoked with an
  outcome (\<open>Inr\<close>), or an exception leaves the closure and nothing is delivered
  (\<open>Inl\<close>). \<open>classify\<close> is its second statement, the \<^verbatim>\<open>if\<close> on the four properties
  and the status code. In the \<^verbatim>\<open>catch\<close> block the assignment to \<^verbatim>\<open>parsedBody\<close> is
  followed by \<^verbatim>\<open>cb(e); return\<close> and has no effect.
\<close>

definition classify :: "bool \<Rightarrow> string response \<Rightarrow> body_val \<Rightarrow> exn + outcome" where
  "classify expectBinary res parsedBody =
     (case js_and (Inr (truthy_parsed parsedBody))
             (js_and (hasOwnProperty parsedBody ''error'')
               (js_and (hasOwnProperty parsedBody ''code'')
                 (js_and (hasOwnProperty parsedBody ''errorMessage'')
                   (hasOwnProperty parsedBody ''errorNum'')))) of
        Inl e \<Rightarrow> Inl e
      | Inr True \<Rightarrow> Inr (ApplicationError (with_body res parsedBody))
      | Inr False \<Rightarrow>
          if (case statusCode res of None \<Rightarrow> False | Some s \<Rightarrow> s \<noteq> 0 \<and> 400 \<le> s)
          then Inr (HttpError (with_body res parsedBody))
          else Inr (Success (if \<not> expectBinary then with_body res parsedBody
                             else with_body res (Raw (res_body res)))))"

definition matches_json :: "string option \<Rightarrow> bool" where
  "matches_json contentType =
     (case contentType of None \<Rightarrow> False | Some ct \<Rightarrow> ct \<noteq> [] \<and> MIME_JSON ct)"

definition resolve :: "runtime \<Rightarrow> bool \<Rightarrow> string response \<Rightarrow> exn + outcome" where
  "resolve rt expectBinary res =
     (let contentType = res_headers res ''content-type''
      in if res_body res \<noteq> [] \<and> matches_json contentType
         then (case JSON_parse rt (res_body res) of
                 None \<Rightarrow>
                   (if \<not> expectBinary then Inr (DecodeError res)
                    else classify expectBinary res (Raw (res_body res)))
               | Some v \<Rightarrow> classify expectBinary res (Parsed v))
         else if \<not> expectBinary then classify expectBinary res (Text (res_body res))
         else classify expectBinary res (Raw (res_body res)))"

subsection \<open>Constructor\<close>

text \<open>
  \<^verbatim>\<open>Config\<close>: a string, an array of strings, or an object whose fields may all
  be absent. \<^verbatim>\<open>isAbsolute\<close> is given by its truthiness.
\<close>

record Config =
  cfg_url :: "urls_arg option"
  cfg_isAbsolute :: bool
  cfg_arangoVersion :: "int option"
  cfg_loadBalancingStrategy :: "LoadBalancingStrategy option"
  cfg_agentOptions :: "(string \<rightharpoonup> jsval) option"
  cfg_headers :: "string \<rightharpoonup> string"

datatype config_arg = CfgString string | CfgArray "string list" | CfgObject Config

definition empty_config :: Config where
  "empty_config =
     \<lparr>cfg_url = None, cfg_isAbsolute = False, cfg_arangoVersion = None,
      cfg_loadBalancingStrategy = None, cfg_agentOptions = None, cfg_headers = Map.empty\<rparr>"

fun normalize_config :: "config_arg \<Rightarrow> Config" where
  "normalize_config (CfgString u) = empty_config\<lparr>cfg_url := Some (One u)\<rparr>"
| "normalize_config (CfgArray us) = empty_config\<lparr>cfg_url := Some (Many us)\<rparr>"
| "normalize_config (CfgObject c) = c"

text \<open>Reading a property: an absent key reads as \<^verbatim>\<open>undefined\<close>.\<close>

definition property :: "(string \<rightharpoonup> jsval) \<Rightarrow> string \<Rightarrow> jsval" where
  "property obj key = (case obj key of None \<Rightarrow> Undefined | Some v \<Rightarrow> v)"

definition spread :: "(string \<rightharpoonup> jsval) option \<Rightarrow> (string \<rightharpoonup> jsval)" where
  "spread obj = (case obj of None \<Rightarrow> Map.empty | Some m \<Rightarrow> m)"

definition default_agentOptions :: "string \<rightharpoonup> jsval" where
  "default_agentOptions =
     [''maxSockets'' \<mapsto> Number (Finite 3), ''keepAlive'' \<mapsto> Boolean True,
      ''keepAliveMsecs'' \<mapsto> Number (Finite 1000)]"

definition merged_agentOptions :: "runtime \<Rightarrow> Config \<Rightarrow> (string \<rightharpoonup> jsval)" where
  "merged_agentOptions rt config =
     (if isBrowser rt then spread (cfg_agentOptions config)
      else default_agentOptions ++ spread (cfg_agentOptions config))"

text \<open>
  \<^verbatim>\<open>maxSockets || 3\<close>, as the number it counts for in \<^verbatim>\<open>*=\<close> and \<^verbatim>\<open>>=\<close> (a truthy
  value of the options is a number other than 0 and NaN, or \<^verbatim>\<open>true\<close>, which
  converts to 1), and the two statements that set \<^verbatim>\<open>_maxTasks\<close>.
\<close>

definition or_3 :: "jsval \<Rightarrow> jsnumber" where
  "or_3 v = (if truthy_val v then ToNumber v else Finite 3)"

definition initial_maxTasks :: "(string \<rightharpoonup> jsval) \<Rightarrow> jsnumber" where
  "initial_maxTasks opts =
     (let maxTasks0 = or_3 (property opts ''maxSockets'')
      in if truthy_val (property opts ''keepAlive'') then times_2 maxTasks0 else maxTasks0)"

definition initial_urls :: "Config \<Rightarrow> string list" where
  "initial_urls config =
     (case cfg_url config of
        None \<Rightarrow> [''http://localhost:8529'']
      | Some (One u) \<Rightarrow> (if u \<noteq> [] then [u] else [''http://localhost:8529''])
      | Some (Many us) \<Rightarrow> us)"

subsection \<open>Scheduler\<close>

text \<open>
  The connection together with its environment: the transport calls that were
  issued and have not completed (each with the task and the host index its
  callback closes over), and what the caller has observed so far.
\<close>

datatype obs = Callback nat outcome | Throws exn

record world = conn +
  pending :: "(task \<times> nat) list"
  log :: "obs list"

text \<open>
  The constructor. \<^verbatim>\<open>_activeHost\<close> has no value before the last statement
  assigns one; \<^verbatim>\<open>addToHostList\<close> does not read it.
\<close>

definition Connection :: "runtime \<Rightarrow> config_arg \<Rightarrow> world" where
  "Connection rt arg =
     (let config = normalize_config arg;
          opts = merged_agentOptions rt config;
          strategy = (case cfg_loadBalancingStrategy config of None \<Rightarrow> NONE | Some s \<Rightarrow> s);
          this0 =
            \<lparr>activeTasks = 0,
             agentOptions = opts,
             arangoVersion = (case cfg_arangoVersion config of None \<Rightarrow> 30000 | Some v \<Rightarrow> v),
             databaseName = (if cfg_isAbsolute config then None else Some ''_system''),
             headers = cfg_headers config,
             loadBalancingStrategy = strategy,
             useFailOver = (strategy \<noteq> ROUND_ROBIN),
             maxTasks = initial_maxTasks opts,
             queue = [],
             hosts = [],
             urls = [],
             activeHost = Num 0,
             pending = [],
             log = []\<rparr>;
          this1 = snd (addToHostList (Many (initial_urls config)) this0)
      in this1\<lparr>activeHost :=
           (if strategy = ONE_RANDOM
            then Num \<lfloor>Math_random rt * of_nat (length (hosts this1))\<rfloor>
            else Num 0)\<rparr>)"

text \<open>\<^verbatim>\<open>this._hosts[host]\<close>: the index when an entry exists there.\<close>

definition host_index :: "handle list \<Rightarrow> jsnum \<Rightarrow> nat option" where
  "host_index hs h =
     (case h of
        NaN \<Rightarrow> None
      | Num i \<Rightarrow> (if 0 \<le> i \<and> nat i < length hs then Some (nat i) else None))"

text \<open>
  \<^verbatim>\<open>_runQueue\<close> up to the transport call: at most one task leaves the queue.
  Calling an entry that does not exist raises a TypeError, after the task was
  taken and the counter incremented.
\<close>

definition runQueue :: "world \<Rightarrow> world" where
  "runQueue w =
     (if queue w = [] \<or> reached (activeTasks w) (maxTasks w) then w
      else
        let task = hd (queue w);
            w1 = w\<lparr>queue := tl (queue w)\<rparr>;
            host = (case task_host task of Some h \<Rightarrow> Num h | None \<Rightarrow> activeHost w1);
            w2 = (if task_host task = None \<and> loadBalancingStrategy w1 = ROUND_ROBIN
                  then w1\<lparr>activeHost :=
                         js_rem (js_plus1 (activeHost w1)) (length (hosts w1))\<rparr>
                  else w1);
            w3 = w2\<lparr>activeTasks := activeTasks w2 + 1\<rparr>
        in case host_index (hosts w3) host of
             None \<Rightarrow> w3\<lparr>log := log w3 @ [Throws TypeError]\<rparr>
           | Some i \<Rightarrow> w3\<lparr>pending := pending w3 @ [(task, i)]\<rparr>)"

definition LEADER_ENDPOINT_HEADER :: string where
  "LEADER_ENDPOINT_HEADER = ''x-arango-endpoint''"

text \<open>What the transport passes to the callback: an error, or a response.\<close>

datatype result = Failed err | Responded "string response"

text \<open>
  What the run of a \<^verbatim>\<open>resolve\<close> closure adds to the log: the outcome handed to the
  caller's callback, or the exception that left the closure.
\<close>

fun deliver :: "nat \<Rightarrow> exn + outcome \<Rightarrow> obs" where
  "deliver cb (Inl e) = Throws e"
| "deliver cb (Inr out) = Callback cb out"

text \<open>
  The callback of the transport call, for the task and the host it closes over,
  up to its last statement (the call of \<^verbatim>\<open>_runQueue\<close>). An exception that leaves
  \<^verbatim>\<open>task.resolve\<close> leaves the callback as well: \<open>callback_raises\<close> says when, and the
  last statement is then not reached.
\<close>

definition callback :: "runtime \<Rightarrow> task \<Rightarrow> nat \<Rightarrow> result \<Rightarrow> world \<Rightarrow> world" where
  "callback rt task host res w =
     (let w1 = w\<lparr>activeTasks := activeTasks w - 1\<rparr>
      in case res of
           Failed e \<Rightarrow>
             (let w2 =
                    (if 1 < length (hosts w1) \<and> activeHost w1 = Num (int host) \<and> useFailOver w1
                     then w1\<lparr>activeHost :=
                            js_rem (js_plus1 (activeHost w1)) (length (hosts w1))\<rparr>
                     else w1)
              in w2\<lparr>log := log w2 @ [Callback (task_cb task) (TransportError e)]\<rparr>)
         | Responded response \<Rightarrow>
             if statusCode response = Some 503 \<and>
                truthy_str (res_headers response LEADER_ENDPOINT_HEADER)
             then
               (let url = the (res_headers response LEADER_ENDPOINT_HEADER);
                    (indices, w2) = addToHostList (One url) w1;
                    index = hd indices;
                    w3 = (if activeHost w2 = Num (int host)
                          then w2\<lparr>activeHost := Num index\<rparr> else w2)
                in w3\<lparr>queue := queue w3 @ [task\<lparr>task_host := Some index\<rparr>]\<rparr>)
             else
               w1\<lparr>log := log w1 @
                  [deliver (task_cb task)
                     (resolve rt (w_expectBinary (task_options task))
                        (response\<lparr>res_host := Some host\<rparr>))]\<rparr>)"

definition callback_raises :: "runtime \<Rightarrow> task \<Rightarrow> nat \<Rightarrow> result \<Rightarrow> bool" where
  "callback_raises rt task host res =
     (case res of
        Failed e \<Rightarrow> False
      | Responded response \<Rightarrow>
          if statusCode response = Some 503 \<and>
             truthy_str (res_headers response LEADER_ENDPOINT_HEADER)
          then False
          else (case resolve rt (w_expectBinary (task_options task))
                       (response\<lparr>res_host := Some host\<rparr>) of
                  Inl e \<Rightarrow> True
                | Inr out \<Rightarrow> False))"

text \<open>
  The \<open>k\<close>-th pending call completes: its callback runs, then \<^verbatim>\<open>_runQueue\<close> unless an
  exception left the callback.
\<close>

definition completion :: "runtime \<Rightarrow> nat \<Rightarrow> result \<Rightarrow> world \<Rightarrow> world" where
  "completion rt k res w =
     (if k < length (pending w)
      then (let task = fst (pending w ! k);
                host = snd (pending w ! k);
                w1 = callback rt task host res
                       (w\<lparr>pending := take k (pending w) @ drop (Suc k) (pending w)\<rparr>)
            in if callback_raises rt task host res then w1 else runQueue w1)
      else w)"

text \<open>\<^verbatim>\<open>request\<close>: encode, push the task, run the queue.\<close>

definition request :: "runtime \<Rightarrow> RequestOptions \<Rightarrow> nat \<Rightarrow> world \<Rightarrow> world" where
  "request rt opts cb w =
     (case encodeBody rt opts of
        Inl e \<Rightarrow> w\<lparr>log := log w @ [Throws e]\<rparr>
      | Inr (body, contentType) \<Rightarrow>
          runQueue (w\<lparr>queue := queue w @ [makeTask rt w opts cb body contentType]\<rparr>))"

subsection \<open>The other public operations\<close>

definition arangoMajor :: "'a conn_scheme \<Rightarrow> int" where
  "arangoMajor c = arangoVersion c div 10000"

definition getDatabaseName :: "'a conn_scheme \<Rightarrow> string option" where
  "getDatabaseName c = databaseName c"

definition getActiveHost :: "'a conn_scheme \<Rightarrow> jsnum" where
  "getActiveHost c = activeHost c"

definition setDatabaseName :: "string \<Rightarrow> world \<Rightarrow> world" where
  "setDatabaseName name w =
     (if databaseName w = None
      then w\<lparr>log := log w @ [Throws (Error ''Can not change database from absolute URL'')]\<rparr>
      else w\<lparr>databaseName := Some name\<rparr>)"

definition setHeader :: "string \<Rightarrow> string \<Rightarrow> 'a conn_scheme \<Rightarrow> 'a conn_scheme" where
  "setHeader key val c = c\<lparr>headers := (headers c)(key \<mapsto> val)\<rparr>"

subsection \<open>Executions\<close>

text \<open>
  An execution is a sequence of events: the caller invokes a public operation,
  or a pending transport call completes. A request that the caller submits from
  its callback is the next event.
\<close>

datatype event =
    Request RequestOptions nat
  | Complete nat result
  | AddToHostList urls_arg
  | SetHeader string string
  | SetDatabaseName string

fun step :: "runtime \<Rightarrow> world \<Rightarrow> event \<Rightarrow> world" where
  "step rt w (Request opts cb) = request rt opts cb w"
| "step rt w (Complete k res) = completion rt k res w"
| "step rt w (AddToHostList arg) = snd (addToHostList arg w)"
| "step rt w (SetHeader key val) = setHeader key val w"
| "step rt w (SetDatabaseName name) = setDatabaseName name w"

definition run :: "runtime \<Rightarrow> world \<Rightarrow> event list \<Rightarrow> world" where
  "run rt w evs = foldl (step rt) w evs"

subsection \<open>A runtime for the examples\<close>

text \<open>
  \<^verbatim>\<open>JSON.stringify\<close> on the values of \<open>json\<close>: no white space, strings quoted with
  the escapes of ECMAScript.
\<close>

definition hex_digit :: "nat \<Rightarrow> char" where
  "hex_digit n = ''0123456789abcdef'' ! n"

definition quote_char :: "char \<Rightarrow> string" where
  "quote_char c =
     (let n = of_char c :: nat
      in if n = 34 then [CHR 0x5C, CHR 0x22]
         else if n = 92 then [CHR 0x5C, CHR 0x5C]
         else if n = 8 then [CHR 0x5C, CHR ''b'']
         else if n = 9 then [CHR 0x5C, CHR ''t'']
         else if n = 10 then [CHR 0x5C, CHR ''n'']
         else if n = 12 then [CHR 0x5C, CHR ''f'']
         else if n = 13 then [CHR 0x5C, CHR ''r'']
         else if n < 32 then [CHR 0x5C, CHR ''u'', CHR ''0'', CHR ''0'', hex_digit (n div 16), hex_digit (n mod 16)]
         else [c])"

definition quote :: "string \<Rightarrow> string" where
  "quote s = CHR 0x22 # concat (map quote_char s) @ [CHR 0x22]"

fun stringify :: "json \<Rightarrow> string" where
  "stringify JNull = ''null''"
| "stringify (JBool b) = (if b then ''true'' else ''false'')"
| "stringify (JNum n) = String_int n"
| "stringify (JStr s) = quote s"
| "stringify (JArr xs) = ''['' @ join '','' (map stringify xs) @ '']''"
| "stringify (JObj kvs) =
     ''{'' @ join '','' (map (\<lambda>(k, v). quote k @ '':'' @ stringify v) kvs) @ ''}''"

text \<open>
  \<^verbatim>\<open>JSON.parse\<close> tabulated on the bodies the examples receive; every other body
  they receive is not JSON.
\<close>

definition conflict_json :: json where
  "conflict_json =
     JObj [(''error'', JBool True), (''code'', JNum 409), (''errorNum'', JNum 1200),
           (''errorMessage'', JStr ''conflict'')]"

definition conflict_extra_json :: json where
  "conflict_extra_json =
     JObj [(''error'', JBool True), (''code'', JNum 409), (''errorNum'', JNum 1200),
           (''errorMessage'', JStr ''conflict''), (''extra'', JNum 1)]"

definition conflict_text :: string where
  "conflict_text =
     ''{\"error\":true,\"code\":409,\"errorNum\":1200,\"errorMessage\":\"conflict\"}''"

definition conflict_extra_text :: string where
  "conflict_extra_text =
     ''{\"error\":true,\"code\":409,\"errorNum\":1200,\"errorMessage\":\"conflict\",\"extra\":1}''"

definition example_parse :: "string \<Rightarrow> json option" where
  "example_parse s =
     (if s = conflict_text then Some conflict_json
      else if s = conflict_extra_text then Some conflict_extra_json
      else None)"

definition node :: runtime where
  "node =
     \<lparr>isBrowser = False,
      JSON_parse = example_parse,
      JSON_stringify = stringify,
      byteLength = (\<lambda>v. case v of JStr s \<Rightarrow> length s | _ \<Rightarrow> 0),
      querystringify = (\<lambda>kvs. join ''&'' (map (\<lambda>(k, v). k @ ''='' @ String_json v) kvs)),
      Math_random = 0\<rparr>"

subsection \<open>Inputs of the examples\<close>

definition plain_get :: RequestOptions where
  "plain_get =
     \<lparr>opt_host = None, opt_method = None, opt_body = None, opt_expectBinary = False,
      opt_isBinary = False, opt_isJsonStream = False, opt_headers = Map.empty,
      opt_absolutePath = False, opt_basePath = None, opt_path = None, opt_qs = None\<rparr>"

definition pinned_get :: RequestOptions where
  "pinned_get = plain_get\<lparr>opt_host := Some 0\<rparr>"

definition ten_requests :: "event list" where
  "ten_requests = map (Request plain_get) [0..<10]"

definition config_3_keepAlive :: config_arg where
  "config_3_keepAlive =
     CfgObject (empty_config\<lparr>cfg_agentOptions :=
       Some [''maxSockets'' \<mapsto> Number (Finite 3), ''keepAlive'' \<mapsto> Boolean True]\<rparr>)"

definition three_hosts_round_robin :: config_arg where
  "three_hosts_round_robin =
     CfgObject (empty_config\<lparr>
       cfg_url := Some (Many [''http://a:1'', ''http://b:1'', ''http://c:1'']),
       cfg_loadBalancingStrategy := Some ROUND_ROBIN,
       cfg_agentOptions :=
         Some [''maxSockets'' \<mapsto> Number (Finite 1), ''keepAlive'' \<mapsto> Boolean False]\<rparr>)"

definition single_host :: config_arg where
  "single_host = CfgString ''http://a:1''"

definition two_hosts :: config_arg where
  "two_hosts = CfgArray [''http://a:1'', ''http://b:1'']"

definition leader_response :: "string response" where
  "leader_response =
     \<lparr>statusCode = Some 503,
      res_headers = [''x-arango-endpoint'' \<mapsto> ''tcp://leader:8529''],
      res_body = [], res_host = None\<rparr>"

definition json_response :: "int \<Rightarrow> string \<Rightarrow> string response" where
  "json_response status text =
     \<lparr>statusCode = Some status,
      res_headers = [''content-type'' \<mapsto> ''application/json; charset=utf-8''],
      res_body = text, res_host = Some 0\<rparr>"

definition unregistered :: world where
  "unregistered = Connection node (CfgArray [])"

definition ok_response :: "string response" where
  "ok_response = \<lparr>statusCode = Some 200, res_headers = Map.empty, res_body = [], res_host = None\<rparr>"

subsection \<open>Predicates on outcomes and executions\<close>

fun isApplicationError :: "exn + outcome \<Rightarrow> bool" where
  "isApplicationError (Inr (ApplicationError res)) = True"
| "isApplicationError r = False"

definition error_fields :: "string set" where
  "error_fields = {''error'', ''code'', ''errorMessage'', ''errorNum''}"

text \<open>The decoded value is an object with an own property \<^verbatim>\<open>hasOwnProperty\<close>.\<close>

fun shadows_hasOwnProperty :: "json \<Rightarrow> bool" where
  "shadows_hasOwnProperty (JObj kvs) = (''hasOwnProperty'' \<in> set (map fst kvs))"
| "shadows_hasOwnProperty v = False"

text \<open>
  The counter bounds the pending calls, and it was below the cap (the test
  \<^verbatim>\<open>_activeTasks >= _maxTasks\<close> was false) when it was last incremented.
\<close>

definition within_cap :: "world \<Rightarrow> bool" where
  "within_cap w =
     (int (length (pending w)) \<le> activeTasks w \<and>
      (0 < activeTasks w \<longrightarrow> \<not> reached (activeTasks w - 1) (maxTasks w)))"

text \<open>
  A connection none of whose calls has completed: every dispatched task is
  pending, and tasks wait only when the cap is reached.
\<close>

definition saturating :: "world \<Rightarrow> bool" where
  "saturating w =
     (loadBalancingStrategy w \<noteq> ROUND_ROBIN \<and>
      host_index (hosts w) (activeHost w) \<noteq> None \<and>
      activeTasks w = int (length (pending w)) \<and>
      (queue w \<noteq> [] \<longrightarrow> reached (activeTasks w) (maxTasks w)))"

text \<open>
  The event is a request without a host of its own and without the binary
  flag, whose body encodes (so that \<^verbatim>\<open>byteLength\<close> is applied to a string only).
\<close>

definition unpinned_request :: "runtime \<Rightarrow> event \<Rightarrow> bool" where
  "unpinned_request rt ev =
     (case ev of
        Request opts cb \<Rightarrow>
          opt_host opts = None \<and> \<not> opt_isBinary opts \<and>
          (case encodeBody rt opts of Inl e \<Rightarrow> False | Inr r \<Rightarrow> True)
      | _ \<Rightarrow> False)"

definition zero_sockets :: Config where
  "zero_sockets =
     empty_config\<lparr>cfg_agentOptions :=
       Some [''maxSockets'' \<mapsto> Number (Finite 0), ''keepAlive'' \<mapsto> Boolean True]\<rparr>"

definition object_a1 :: json where
  "object_a1 = JObj [(''a'', JNum 1)]"

definition object_b2 :: json where
  "object_b2 = JObj [(''b'', JNum 2)]"

definition negative_sockets :: Config where
  "negative_sockets =
     empty_config\<lparr>cfg_agentOptions :=
       Some [''maxSockets'' \<mapsto> Number (Finite (- 1)), ''keepAlive'' \<mapsto> Boolean True]\<rparr>"

definition fractional_sockets :: Config where
  "fractional_sockets =
     empty_config\<lparr>cfg_agentOptions :=
       Some [''maxSockets'' \<mapsto> Number (Finite (5 / 2)), ''keepAlive'' \<mapsto> Boolean False]\<rparr>"

definition conflict_shadow_json :: json where
  "conflict_shadow_json =
     JObj [(''error'', JBool True), (''code'', JNum 409), (''errorNum'', JNum 1200),
           (''errorMessage'', JStr ''conflict''), (''hasOwnProperty'', JNum 1)]"

definition three_requests :: "event list" where
  "three_requests = map (Request plain_get) [0..<3]"

section \<open>Auxiliary facts\<close>

lemma indexOf_ge: "- 1 \<le> indexOf xs x"
  by (induction xs) (auto simp: Let_def)

lemma indexOf_notin: "(indexOf xs x = -1) = (x \<notin> set xs)"
proof (induction xs)
  case Nil then show ?case by simp
next
  case (Cons y ys)
  have "- 1 \<le> indexOf ys x" by (rule indexOf_ge)
  with Cons show ?case by (auto simp: Let_def)
qed

lemma indexOf_in: "x \<in> set xs \<Longrightarrow> 0 \<le> indexOf xs x \<and> nat (indexOf xs x) < length xs \<and> xs ! nat (indexOf xs x) = x"
proof (induction xs)
  case Nil then show ?case by simp
next
  case (Cons y ys)
  show ?case
  proof (cases "y = x")
    case True then show ?thesis by simp
  next
    case False
    with Cons.prems have "x \<in> set ys" by simp
    from Cons.IH[OF this] False show ?thesis
      by (simp add: Let_def nat_add_distrib)
  qed
qed

lemma indexOf_first: "x \<in> set xs \<Longrightarrow> j < nat (indexOf xs x) \<Longrightarrow> xs ! j \<noteq> x"
proof (induction xs arbitrary: j)
  case Nil then show ?case by simp
next
  case (Cons y ys)
  show ?case
  proof (cases "y = x")
    case True with Cons.prems show ?thesis by simp
  next
    case False
    with Cons.prems have xin: "x \<in> set ys" by simp
    have nn: "indexOf ys x \<noteq> -1" using xin by (simp add: indexOf_notin)
    show ?thesis
    proof (cases j)
      case 0 with False show ?thesis by simp
    next
      case (Suc k)
      from Cons.prems(2) False nn indexOf_in[OF xin] have "k < nat (indexOf ys x)"
        by (simp add: Let_def Suc nat_add_distrib)
      from Cons.IH[OF xin this] show ?thesis by (simp add: Suc)
    qed
  qed
qed

lemma filter_known_empty: "(\<forall>u \<in> set us. u \<in> set xs) \<Longrightarrow> filter (\<lambda>url. indexOf xs url = -1) us = []"
  by (induction us) (auto simp: indexOf_notin)

lemma addToHostList_urls:
  "urls (snd (addToHostList arg c)) =
     urls c @ filter (\<lambda>u. u \<notin> set (urls c)) (map sanitizeEndpointUrl (as_array arg))"
  by (simp add: addToHostList_def Let_def indexOf_notin)

lemma addToHostList_hosts:
  "hosts (snd (addToHostList arg c)) =
     hosts c @ map createRequest
       (filter (\<lambda>u. u \<notin> set (urls c)) (map sanitizeEndpointUrl (as_array arg)))"
  by (simp add: addToHostList_def Let_def indexOf_notin)

lemma addToHostList_fst:
  "fst (addToHostList arg c) =
     map (\<lambda>u. indexOf (urls (snd (addToHostList arg c))) (sanitizeEndpointUrl u)) (as_array arg)"
  by (simp add: addToHostList_def Let_def comp_def)

lemma addToHostList_covers:
  "u \<in> set (as_array arg) \<Longrightarrow> sanitizeEndpointUrl u \<in> set (urls (snd (addToHostList arg c)))"
  by (auto simp: addToHostList_urls)

lemma addToHostList_known:
  "(\<forall>u \<in> set (as_array arg). sanitizeEndpointUrl u \<in> set (urls c)) \<Longrightarrow>
     addToHostList arg c = (map (\<lambda>u. indexOf (urls c) (sanitizeEndpointUrl u)) (as_array arg), c)"
proof -
  assume a: "\<forall>u \<in> set (as_array arg). sanitizeEndpointUrl u \<in> set (urls c)"
  then have "filter (\<lambda>url. indexOf (urls c) url = -1) (map sanitizeEndpointUrl (as_array arg)) = []"
    by (intro filter_known_empty) auto
  then show ?thesis by (simp add: addToHostList_def Let_def comp_def)
qed

lemma sanitize_tcp: "sanitizeEndpointUrl (''tcp://'' @ r) = ''http://'' @ r"
  by (simp add: sanitizeEndpointUrl_def)

lemma sanitize_ssl: "sanitizeEndpointUrl (''ssl://'' @ r) = ''https://'' @ r"
  by (simp add: sanitizeEndpointUrl_def)

lemma runQueue_frame:
  "maxTasks (runQueue w) = maxTasks w"
  "loadBalancingStrategy (runQueue w) = loadBalancingStrategy w"
  "useFailOver (runQueue w) = useFailOver w"
  "hosts (runQueue w) = hosts w"
  "urls (runQueue w) = urls w"
  by (simp_all add: runQueue_def Let_def split: option.splits)

lemma addToHostList_frame:
  "maxTasks (snd (addToHostList arg c)) = maxTasks c"
  "loadBalancingStrategy (snd (addToHostList arg c)) = loadBalancingStrategy c"
  "useFailOver (snd (addToHostList arg c)) = useFailOver c"
  "activeTasks (snd (addToHostList arg c)) = activeTasks c"
  "activeHost (snd (addToHostList arg c)) = activeHost c"
  "queue (snd (addToHostList arg c)) = queue c"
  by (simp_all add: addToHostList_def Let_def)

lemma addToHostList_world_frame:
  "pending (snd (addToHostList arg w)) = pending w"
  "log (snd (addToHostList arg w)) = log w"
  by (simp_all add: addToHostList_def Let_def)

lemma callback_frame:
  "maxTasks (callback rt t h res w) = maxTasks w"
  "loadBalancingStrategy (callback rt t h res w) = loadBalancingStrategy w"
  "useFailOver (callback rt t h res w) = useFailOver w"
  "pending (callback rt t h res w) = pending w"
  "activeTasks (callback rt t h res w) = activeTasks w - 1"
  by (simp_all add: callback_def Let_def addToHostList_def split: result.splits prod.splits)

lemma reached_mono: "reached a m \<Longrightarrow> a \<le> b \<Longrightarrow> reached b m"
  by (cases m) (auto simp: of_int_le_iff[symmetric, where ?'a = rat] simp del: of_int_le_iff)

lemma runQueue_within_cap: "within_cap w \<Longrightarrow> within_cap (runQueue w)"
  by (auto simp: within_cap_def runQueue_def Let_def split: option.splits)

lemma callback_within_cap:
  assumes "int (length (pending w)) + 1 \<le> activeTasks w"
    and "0 < activeTasks w \<longrightarrow> \<not> reached (activeTasks w - 1) (maxTasks w)"
  shows "within_cap (callback rt t h res w)"
proof -
  have "\<not> reached (activeTasks w - 1 - 1) (maxTasks w)"
    using assms reached_mono[of "activeTasks w - 1 - 1" "maxTasks w" "activeTasks w - 1"]
    by auto
  with assms(1) show ?thesis
    by (simp add: within_cap_def callback_frame)
qed

lemma completion_within_cap: "within_cap w \<Longrightarrow> within_cap (completion rt k res w)"
proof -
  assume a: "within_cap w"
  show ?thesis
  proof (cases "k < length (pending w)")
    case False then show ?thesis using a by (simp add: completion_def)
  next
    case True
    let ?w1 = "w\<lparr>pending := take k (pending w) @ drop (Suc k) (pending w)\<rparr>"
    let ?w2 = "callback rt (fst (pending w ! k)) (snd (pending w ! k)) res ?w1"
    have l: "int (length (pending ?w1)) + 1 = int (length (pending w))" using True by simp
    have "within_cap ?w2"
    proof (rule callback_within_cap)
      show "int (length (pending ?w1)) + 1 \<le> activeTasks ?w1"
        using a l by (simp add: within_cap_def del: length_append length_take length_drop)
      show "0 < activeTasks ?w1 \<longrightarrow> \<not> reached (activeTasks ?w1 - 1) (maxTasks ?w1)"
        using a by (simp add: within_cap_def)
    qed
    then show ?thesis using True
      by (simp add: completion_def Let_def runQueue_within_cap)
  qed
qed

lemma request_within_cap: "within_cap w \<Longrightarrow> within_cap (request rt opts cb w)"
proof -
  assume a: "within_cap w"
  have "within_cap (w\<lparr>queue := queue w @ [t]\<rparr>)" for t
    using a by (simp add: within_cap_def)
  then have q: "within_cap (runQueue (w\<lparr>queue := queue w @ [t]\<rparr>))" for t
    by (rule runQueue_within_cap)
  have l: "within_cap (w\<lparr>log := log w @ [x]\<rparr>)" for x
    using a by (simp add: within_cap_def)
  show ?thesis
    by (simp add: request_def q l split: sum.splits prod.splits)
qed

lemma step_within_cap: "within_cap w \<Longrightarrow> within_cap (step rt w ev)"
proof (cases ev)
  case (Request opts cb) then show "within_cap w \<Longrightarrow> ?thesis" by (simp add: request_within_cap)
next
  case (Complete k res) then show "within_cap w \<Longrightarrow> ?thesis" by (simp add: completion_within_cap)
next
  case (AddToHostList arg) then show "within_cap w \<Longrightarrow> ?thesis"
    by (simp add: within_cap_def addToHostList_frame addToHostList_world_frame)
next
  case (SetHeader k v) then show "within_cap w \<Longrightarrow> ?thesis"
    by (simp add: within_cap_def setHeader_def)
next
  case (SetDatabaseName n) then show "within_cap w \<Longrightarrow> ?thesis"
    by (simp add: within_cap_def setDatabaseName_def)
qed

lemma run_within_cap: "within_cap w \<Longrightarrow> within_cap (run rt w evs)"
  unfolding run_def by (induction evs arbitrary: w) (simp_all add: step_within_cap)

lemma step_config:
  "maxTasks (step rt w ev) = maxTasks w \<and>
   loadBalancingStrategy (step rt w ev) = loadBalancingStrategy w \<and>
   useFailOver (step rt w ev) = useFailOver w"
  by (cases ev)
     (auto simp: request_def completion_def Let_def runQueue_frame callback_frame
        addToHostList_frame setHeader_def setDatabaseName_def split: sum.splits prod.splits)

lemma run_config:
  "maxTasks (run rt w evs) = maxTasks w \<and>
   loadBalancingStrategy (run rt w evs) = loadBalancingStrategy w \<and>
   useFailOver (run rt w evs) = useFailOver w"
  unfolding run_def by (induction evs arbitrary: w) (simp_all add: step_config)

lemma Connection_maxTasks:
  "maxTasks (Connection rt arg) = initial_maxTasks (merged_agentOptions rt (normalize_config arg))"
  by (simp add: Connection_def Let_def addToHostList_def)

lemma Connection_idle:
  "activeTasks (Connection rt arg) = 0"
  "pending (Connection rt arg) = []"
  "queue (Connection rt arg) = []"
  "log (Connection rt arg) = []"
  by (simp_all add: Connection_def Let_def addToHostList_def)

lemma Connection_useFailOver:
  "useFailOver (Connection rt arg) = (loadBalancingStrategy (Connection rt arg) \<noteq> ROUND_ROBIN)"
  by (simp add: Connection_def Let_def addToHostList_def)

lemma request_dispatch:
  "encodeBody rt opts = Inr (b, ct) \<Longrightarrow> opt_host opts = None \<Longrightarrow> queue w = [] \<Longrightarrow>
   \<not> reached (activeTasks w) (maxTasks w) \<Longrightarrow> loadBalancingStrategy w \<noteq> ROUND_ROBIN \<Longrightarrow>
   host_index (hosts w) (activeHost w) = Some i \<Longrightarrow>
   request rt opts cb w =
     w\<lparr>activeTasks := activeTasks w + 1, pending := pending w @ [(makeTask rt w opts cb b ct, i)]\<rparr>"
  by (simp add: request_def runQueue_def Let_def makeTask_def)

lemma request_enqueue:
  "encodeBody rt opts = Inr (b, ct) \<Longrightarrow> reached (activeTasks w) (maxTasks w) \<Longrightarrow>
   request rt opts cb w = w\<lparr>queue := queue w @ [makeTask rt w opts cb b ct]\<rparr>"
  by (simp add: request_def runQueue_def Let_def)

lemma encode_plain: "encodeBody rt plain_get = Inr (None, ''text/plain'')"
  by (simp add: encodeBody_def plain_get_def)

lemma start_3_keepAlive:
  "maxTasks (Connection rt config_3_keepAlive) = Finite 6"
  "host_index (hosts (Connection rt config_3_keepAlive)) (activeHost (Connection rt config_3_keepAlive)) = Some 0"
  "loadBalancingStrategy (Connection rt config_3_keepAlive) = NONE"
  by (simp_all add: Connection_def Let_def config_3_keepAlive_def empty_config_def
      merged_agentOptions_def spread_def default_agentOptions_def initial_maxTasks_def property_def or_3_def
      initial_urls_def addToHostList_def host_index_def map_add_def)

lemma request_saturating:
  assumes s: "saturating w" and h: "opt_host opts = None" and e: "encodeBody rt opts = Inr (b, ct)"
  shows "saturating (request rt opts cb w) \<and>
         maxTasks (request rt opts cb w) = maxTasks w \<and>
         length (pending (request rt opts cb w)) + length (queue (request rt opts cb w))
           = Suc (length (pending w) + length (queue w))"
proof (cases "queue w = [] \<and> \<not> reached (activeTasks w) (maxTasks w)")
  case True
  from s obtain i where i: "host_index (hosts w) (activeHost w) = Some i"
    by (auto simp: saturating_def)
  from s have rr: "loadBalancingStrategy w \<noteq> ROUND_ROBIN" by (simp add: saturating_def)
  have "request rt opts cb w =
          w\<lparr>activeTasks := activeTasks w + 1,
            pending := pending w @ [(makeTask rt w opts cb b ct, i)]\<rparr>"
    using request_dispatch[OF e h _ _ rr i] True by simp
  then show ?thesis using s True by (simp add: saturating_def)
next
  case False
  with s have full: "reached (activeTasks w) (maxTasks w)" by (auto simp: saturating_def)
  have "request rt opts cb w = w\<lparr>queue := queue w @ [makeTask rt w opts cb b ct]\<rparr>"
    using request_enqueue[OF e full] .
  then show ?thesis using s full by (simp add: saturating_def)
qed

lemma submissions:
  "saturating w \<Longrightarrow> \<forall>ev \<in> set evs. unpinned_request rt ev \<Longrightarrow>
     saturating (run rt w evs) \<and> maxTasks (run rt w evs) = maxTasks w \<and>
     length (pending (run rt w evs)) + length (queue (run rt w evs))
       = length (pending w) + length (queue w) + length evs"
proof (induction evs arbitrary: w)
  case Nil
  then show ?case by (simp add: run_def)
next
  case (Cons ev evs)
  from Cons.prems(2) obtain opts cb b ct where
    ev: "ev = Request opts cb" and h: "opt_host opts = None" and e: "encodeBody rt opts = Inr (b, ct)"
    by (auto simp: unpinned_request_def split: event.splits sum.splits)
  note r = request_saturating[OF Cons.prems(1) h e, of cb]
  have all: "\<forall>ev \<in> set evs. unpinned_request rt ev" using Cons.prems(2) by simp
  have run_cons: "run rt w (ev # evs) = run rt (request rt opts cb w) evs"
    by (simp add: run_def ev)
  from Cons.IH[OF conjunct1[OF r] all] r show ?case
    by (simp add: run_cons)
qed

lemma within_cap_bound:
  assumes "within_cap w" and "maxTasks w = Finite q"
  shows "pending w = [] \<or> of_nat (length (pending w)) < q + 1"
proof (cases "pending w = []")
  case True then show ?thesis by simp
next
  case False
  then have p: "0 < int (length (pending w))" by simp
  have a: "0 < activeTasks w"
    using p assms(1) unfolding within_cap_def by linarith
  with assms have "of_int (activeTasks w - 1) < q" by (simp add: within_cap_def)
  then have "of_int (activeTasks w) < q + 1" by simp
  moreover have "(of_int (int (length (pending w))) :: rat) \<le> of_int (activeTasks w)"
    using assms(1) by (simp only: of_int_le_iff within_cap_def)
  ultimately have "(of_int (int (length (pending w))) :: rat) < q + 1" by linarith
  then show ?thesis by simp
qed

lemma within_cap_integer:
  assumes "within_cap w" and "maxTasks w = Finite (of_int n)" and "0 \<le> n"
  shows "int (length (pending w)) \<le> n"
proof -
  from within_cap_bound[OF assms(1,2)]
  have "pending w = [] \<or> (of_int (int (length (pending w))) :: rat) < of_int (n + 1)"
    by simp
  then have "pending w = [] \<or> int (length (pending w)) < n + 1"
    by (simp only: of_int_less_iff)
  with assms(3) show ?thesis by auto
qed

lemma within_cap_MinusInfinity:
  assumes "within_cap w" and "maxTasks w = MinusInfinity"
  shows "pending w = []"
proof (rule ccontr)
  assume "pending w \<noteq> []"
  then have p: "0 < int (length (pending w))" by simp
  have "0 < activeTasks w"
    using p assms(1) unfolding within_cap_def by linarith
  with assms show False by (simp add: within_cap_def)
qed

lemma saturating_counts:
  assumes "saturating w" and "within_cap w" and "maxTasks w = Finite q" and "0 \<le> q"
  shows "length (pending w) = min (length (pending w) + length (queue w)) (nat \<lceil>q\<rceil>)"
proof -
  have c: "0 \<le> \<lceil>q\<rceil>" using assms(4) by simp
  have le: "int (length (pending w)) \<le> \<lceil>q\<rceil>"
  proof (cases "0 < activeTasks w")
    case True
    with assms(2,3) have "of_int (activeTasks w - 1) < q"
      by (simp add: within_cap_def)
    then have "activeTasks w - 1 < \<lceil>q\<rceil>" by (simp only: less_ceiling_iff)
    with assms(1) show ?thesis by (simp add: saturating_def)
  next
    case False
    with assms(1) c show ?thesis by (simp add: saturating_def)
  qed
  show ?thesis
  proof (cases "queue w = []")
    case True with le show ?thesis by simp
  next
    case False
    with assms(1,3) have "q \<le> of_int (activeTasks w)"
      by (simp add: saturating_def)
    then have "\<lceil>q\<rceil> \<le> activeTasks w" by (simp only: ceiling_le_iff)
    with assms(1) le have "int (length (pending w)) = \<lceil>q\<rceil>" by (simp add: saturating_def)
    then show ?thesis by simp
  qed
qed

lemma runQueue_idle:
  "queue w = [] \<or> reached (activeTasks w) (maxTasks w) \<Longrightarrow> runQueue w = w"
  by (simp add: runQueue_def)

lemma runQueue_unpinned:
  assumes "queue w = t # q" "\<not> reached (activeTasks w) (maxTasks w)" "task_host t = None"
  shows "activeHost (runQueue w) =
           (if loadBalancingStrategy w = ROUND_ROBIN
            then js_rem (js_plus1 (activeHost w)) (length (hosts w)) else activeHost w)"
    and "queue (runQueue w) = q"
    and "activeTasks (runQueue w) = activeTasks w + 1"
    and "host_index (hosts w) (activeHost w) = Some i \<Longrightarrow>
           pending (runQueue w) = pending w @ [(t, i)] \<and> log (runQueue w) = log w"
    and "host_index (hosts w) (activeHost w) = None \<Longrightarrow>
           pending (runQueue w) = pending w \<and> log (runQueue w) = log w @ [Throws TypeError]"
  using assms by (simp_all add: runQueue_def Let_def split: option.splits)

lemma runQueue_pinned:
  assumes "queue w = t # q" "\<not> reached (activeTasks w) (maxTasks w)" "task_host t = Some h"
  shows "activeHost (runQueue w) = activeHost w"
    and "queue (runQueue w) = q"
    and "activeTasks (runQueue w) = activeTasks w + 1"
    and "host_index (hosts w) (Num h) = Some i \<Longrightarrow>
           pending (runQueue w) = pending w @ [(t, i)] \<and> log (runQueue w) = log w"
    and "host_index (hosts w) (Num h) = None \<Longrightarrow>
           pending (runQueue w) = pending w \<and> log (runQueue w) = log w @ [Throws TypeError]"
  using assms by (simp_all add: runQueue_def Let_def split: option.splits)

lemma runQueue_effect:
  "(queue (runQueue w) = queue w \<and> pending (runQueue w) = pending w \<and> log (runQueue w) = log w) \<or>
   (queue w \<noteq> [] \<and> queue (runQueue w) = tl (queue w) \<and>
      ((\<exists>i. pending (runQueue w) = pending w @ [(hd (queue w), i)]) \<and> log (runQueue w) = log w \<or>
       pending (runQueue w) = pending w \<and> log (runQueue w) = log w @ [Throws TypeError]))"
  by (simp add: runQueue_def Let_def split: option.splits)

lemma js_advance:
  "js_rem (js_plus1 (Num (int a))) n = (if n = 0 then NaN else Num (int ((a + 1) mod n)))"
proof -
  have s: "sgn (int a + 1) = 1" by simp
  have m: "\<bar>int a + 1\<bar> mod int n = int ((a + 1) mod n)"
    by (simp add: zmod_int add.commute)
  show ?thesis by (simp only: js_plus1.simps js_rem.simps s m mult_1)
qed

lemma advance_moves: "1 < n \<Longrightarrow> (a + 1) mod n \<noteq> (a::nat)"
proof
  assume n: "1 < n" and e: "(a + 1) mod n = a"
  have "a < n" using e n by (metis mod_less_divisor less_trans zero_less_one)
  show False
  proof (cases "a + 1 < n")
    case True then show False using e by simp
  next
    case False
    with \<open>a < n\<close> have "a + 1 = n" by simp
    then have "(a + 1) mod n = 0" by simp
    with e \<open>a + 1 = n\<close> n show False by simp
  qed
qed

lemma callback_failed:
  "callback rt task host (Failed e) w =
     (w\<lparr>activeTasks := activeTasks w - 1,
        activeHost :=
          (if 1 < length (hosts w) \<and> activeHost w = Num (int host) \<and> useFailOver w
           then js_rem (js_plus1 (activeHost w)) (length (hosts w)) else activeHost w),
        log := log w @ [Callback (task_cb task) (TransportError e)]\<rparr>)"
  by (simp add: callback_def Let_def)

lemma callback_redirect:
  assumes "statusCode response = Some 503"
    and "res_headers response LEADER_ENDPOINT_HEADER = Some url" and "url \<noteq> []"
  shows "callback rt task host (Responded response) w =
     (let w2 = snd (addToHostList (One url) w);
          index = indexOf (urls w2) (sanitizeEndpointUrl url)
      in w2\<lparr>activeTasks := activeTasks w - 1,
            activeHost := (if activeHost w = Num (int host) then Num index else activeHost w),
            queue := queue w @ [task\<lparr>task_host := Some index\<rparr>]\<rparr>)"
  using assms by (simp add: callback_def Let_def addToHostList_def)

lemma callback_resolve:
  assumes "statusCode response \<noteq> Some 503 \<or>
           \<not> truthy_str (res_headers response LEADER_ENDPOINT_HEADER)"
  shows "callback rt task host (Responded response) w =
     w\<lparr>activeTasks := activeTasks w - 1,
       log := log w @ [deliver (task_cb task)
                (resolve rt (w_expectBinary (task_options task))
                   (response\<lparr>res_host := Some host\<rparr>))]\<rparr>"
  using assms by (auto simp: callback_def Let_def)

lemma callback_raises_simps:
  "callback_raises rt task host (Failed e) = False"
  "statusCode response = Some 503 \<Longrightarrow>
   res_headers response LEADER_ENDPOINT_HEADER = Some url \<Longrightarrow> url \<noteq> [] \<Longrightarrow>
   callback_raises rt task host (Responded response) = False"
  by (simp_all add: callback_raises_def)

lemma request_encoded:
  "encodeBody rt opts = Inr (b, ct) \<Longrightarrow>
   request rt opts cb w = runQueue (w\<lparr>queue := queue w @ [makeTask rt w opts cb b ct]\<rparr>)"
  by (simp add: request_def)

lemma runQueue_dispatch:
  "queue w = t # q \<Longrightarrow> \<not> reached (activeTasks w) (maxTasks w) \<Longrightarrow>
   host_index (hosts w) (case task_host t of Some h \<Rightarrow> Num h | None \<Rightarrow> activeHost w) = Some i \<Longrightarrow>
   runQueue w =
     w\<lparr>queue := q,
       activeHost :=
         (if task_host t = None \<and> loadBalancingStrategy w = ROUND_ROBIN
          then js_rem (js_plus1 (activeHost w)) (length (hosts w)) else activeHost w),
       activeTasks := activeTasks w + 1,
       pending := pending w @ [(t, i)]\<rparr>"
  by (cases "task_host t") (simp_all add: runQueue_def Let_def)

lemma makeTask_fields:
  "task_host (makeTask rt c opts cb b ct) = opt_host opts"
  "task_cb (makeTask rt c opts cb b ct) = cb"
  "w_expectBinary (task_options (makeTask rt c opts cb b ct)) = opt_expectBinary opts"
  "w_body (task_options (makeTask rt c opts cb b ct)) = b"
  "w_headers (task_options (makeTask rt c opts cb b ct)) = requestHeaders rt c opts b ct"
  by (simp_all add: makeTask_def)

lemma request_idle_round_robin:
  assumes "queue w = []" "pending w = []" "activeTasks w = 0" "\<not> reached 0 (maxTasks w)"
    and "loadBalancingStrategy w = ROUND_ROBIN"
    and "activeHost w = Num (int a)" "a < length (hosts w)"
    and "opt_host opts = None" "encodeBody rt opts = Inr (b, ct)"
  shows "request rt opts cb w =
     w\<lparr>activeHost := Num (int ((a + 1) mod length (hosts w))),
       activeTasks := 1,
       pending := [(makeTask rt w opts cb b ct, a)]\<rparr>"
proof -
  let ?t = "makeTask rt w opts cb b ct"
  let ?w = "w\<lparr>queue := queue w @ [?t]\<rparr>"
  have q: "queue ?w = ?t # []" using assms(1) by simp
  have c: "\<not> reached (activeTasks ?w) (maxTasks ?w)" using assms(3,4) by simp
  have h: "host_index (hosts ?w)
             (case task_host ?t of Some h \<Rightarrow> Num h | None \<Rightarrow> activeHost ?w) = Some a"
    using assms(6,7,8) by (simp add: makeTask_fields host_index_def)
  have n: "length (hosts w) \<noteq> 0" using assms(7) by auto
  show ?thesis
    unfolding request_encoded[OF assms(9)] runQueue_dispatch[OF q c h]
    using assms n by (simp add: makeTask_fields js_advance del: js_plus1.simps js_rem.simps)
qed

lemma completion_only_call:
  assumes "pending w = [(t, h)]" "queue w = []"
    and "statusCode r \<noteq> Some 503 \<or> \<not> truthy_str (res_headers r LEADER_ENDPOINT_HEADER)"
  shows "completion rt 0 (Responded r) w =
     w\<lparr>pending := [],
       activeTasks := activeTasks w - 1,
       log := log w @ [deliver (task_cb t)
                (resolve rt (w_expectBinary (task_options t)) (r\<lparr>res_host := Some h\<rparr>))]\<rparr>"
proof -
  let ?w1 = "w\<lparr>pending := []\<rparr>"
  have cb: "callback rt t h (Responded r) ?w1 =
     ?w1\<lparr>activeTasks := activeTasks ?w1 - 1,
       log := log ?w1 @ [deliver (task_cb t)
                (resolve rt (w_expectBinary (task_options t)) (r\<lparr>res_host := Some h\<rparr>))]\<rparr>"
    by (rule callback_resolve) (use assms(3) in blast)
  have idle: "runQueue (callback rt t h (Responded r) ?w1) = callback rt t h (Responded r) ?w1"
    by (rule runQueue_idle) (simp add: cb assms(2))
  have e: "completion rt 0 (Responded r) w = runQueue (callback rt t h (Responded r) ?w1)"
    by (simp add: completion_def assms(1) Let_def idle)
  have cb': "callback rt t h (Responded r) ?w1 =
     w\<lparr>pending := [],
       activeTasks := activeTasks w - 1,
       log := log w @ [deliver (task_cb t)
                (resolve rt (w_expectBinary (task_options t)) (r\<lparr>res_host := Some h\<rparr>))]\<rparr>"
    using cb by simp
  show ?thesis
    by (rule trans[OF e trans[OF idle cb']])
qed

lemma run_Nil: "run rt w [] = w"
  by (simp add: run_def)

lemma run_Cons: "run rt w (ev # evs) = run rt (step rt w ev) evs"
  by (simp add: run_def)

lemma start_round_robin:
  "queue (Connection rt three_hosts_round_robin) = []"
  "pending (Connection rt three_hosts_round_robin) = []"
  "log (Connection rt three_hosts_round_robin) = []"
  "activeTasks (Connection rt three_hosts_round_robin) = 0"
  "maxTasks (Connection rt three_hosts_round_robin) = Finite 1"
  "loadBalancingStrategy (Connection rt three_hosts_round_robin) = ROUND_ROBIN"
  "useFailOver (Connection rt three_hosts_round_robin) = False"
  "activeHost (Connection rt three_hosts_round_robin) = Num 0"
  "hosts (Connection rt three_hosts_round_robin) =
     [Transport ''http://a:1'', Transport ''http://b:1'', Transport ''http://c:1'']"
  by (simp_all add: Connection_def Let_def three_hosts_round_robin_def empty_config_def
      merged_agentOptions_def spread_def default_agentOptions_def initial_maxTasks_def property_def or_3_def
      initial_urls_def addToHostList_def map_add_def sanitizeEndpointUrl_def createRequest_def)

lemma ok_not_redirect:
  "statusCode ok_response \<noteq> Some 503 \<or> \<not> truthy_str (res_headers ok_response LEADER_ENDPOINT_HEADER)"
  by (simp add: ok_response_def)

lemma plain_get_unpinned: "opt_host plain_get = None"
  by (simp add: plain_get_def)

lemma sequential_round_robin:
  fixes rt :: runtime
  defines "W \<equiv> Connection rt three_hosts_round_robin"
  shows "map snd (pending (run rt W [Request plain_get 1])) = [0] \<and>
     map snd (pending (run rt W
       [Request plain_get 1, Complete 0 (Responded ok_response), Request plain_get 2])) = [1] \<and>
     map snd (pending (run rt W
       [Request plain_get 1, Complete 0 (Responded ok_response), Request plain_get 2,
        Complete 0 (Responded ok_response), Request plain_get 3])) = [2]"
proof -
  note e = encode_plain[of rt]
  note u = plain_get_unpinned
  define t1 where "t1 = makeTask rt W plain_get 1 None ''text/plain''"
  define w1 where "w1 = request rt plain_get 1 W"
  have w1: "w1 = W\<lparr>activeHost := Num 1, activeTasks := 1, pending := [(t1, 0)]\<rparr>"
    unfolding w1_def t1_def W_def
    using request_idle_round_robin[of "Connection rt three_hosts_round_robin" 0 plain_get rt None "''text/plain''" 1]
    by (simp add: start_round_robin e u)
  define w2 where "w2 = completion rt 0 (Responded ok_response) w1"
  have w2: "queue w2 = [] \<and> pending w2 = [] \<and> activeTasks w2 = 0 \<and> maxTasks w2 = Finite 1 \<and>
            loadBalancingStrategy w2 = ROUND_ROBIN \<and> activeHost w2 = Num (int 1) \<and>
            length (hosts w2) = 3"
    unfolding w2_def
    using completion_only_call[of w1 t1 0 ok_response rt] ok_not_redirect
    by (simp add: w1 W_def start_round_robin)
  define w3 where "w3 = request rt plain_get 2 w2"
  define t2 where "t2 = makeTask rt w2 plain_get 2 None ''text/plain''"
  have w3: "w3 = w2\<lparr>activeHost := Num 2, activeTasks := 1, pending := [(t2, 1)]\<rparr>"
    unfolding w3_def t2_def
    using request_idle_round_robin[of w2 1 plain_get rt None "''text/plain''" 2] w2
    by (simp add: e u)
  define w4 where "w4 = completion rt 0 (Responded ok_response) w3"
  have w4: "queue w4 = [] \<and> pending w4 = [] \<and> activeTasks w4 = 0 \<and> maxTasks w4 = Finite 1 \<and>
            loadBalancingStrategy w4 = ROUND_ROBIN \<and> activeHost w4 = Num (int 2) \<and>
            length (hosts w4) = 3"
    unfolding w4_def
    using completion_only_call[of w3 t2 1 ok_response rt] ok_not_redirect w2
    by (simp add: w3)
  define w5 where "w5 = request rt plain_get 3 w4"
  define t3 where "t3 = makeTask rt w4 plain_get 3 None ''text/plain''"
  have w5: "w5 = w4\<lparr>activeHost := Num 0, activeTasks := 1, pending := [(t3, 2)]\<rparr>"
    unfolding w5_def t3_def
    using request_idle_round_robin[of w4 2 plain_get rt None "''text/plain''" 3] w4
    by (simp add: e u)
  have r1: "run rt W [Request plain_get 1] = w1"
    by (simp add: run_Cons run_Nil w1_def)
  have r3: "run rt W
       [Request plain_get 1, Complete 0 (Responded ok_response), Request plain_get 2] = w3"
    by (simp add: run_Cons run_Nil w1_def w2_def w3_def)
  have r5: "run rt W
       [Request plain_get 1, Complete 0 (Responded ok_response), Request plain_get 2,
        Complete 0 (Responded ok_response), Request plain_get 3] = w5"
    by (simp add: run_Cons run_Nil w1_def w2_def w3_def w4_def w5_def)
  show ?thesis
    unfolding r1 r3 r5 by (simp add: w1 w3 w5)
qed

lemma Connection_within_cap: "within_cap (Connection rt cfg)"
  by (simp add: within_cap_def Connection_idle)

lemma initial_maxTasks_formula:
  "initial_maxTasks opts =
     (if truthy_val (property opts ''keepAlive'')
      then times_2 (or_3 (property opts ''maxSockets''))
      else or_3 (property opts ''maxSockets''))"
  by (simp add: initial_maxTasks_def Let_def)

lemma start_3_keepAlive_saturating: "saturating (Connection rt config_3_keepAlive)"
  by (simp add: saturating_def start_3_keepAlive Connection_idle)

lemma saturating_run:
  assumes "saturating w" and "within_cap w" and "\<forall>ev \<in> set reqs. unpinned_request rt ev"
    and "pending w = []" and "queue w = []" and "maxTasks w = Finite q" and "0 \<le> q"
  shows "length (pending (run rt w reqs)) = min (length reqs) (nat \<lceil>q\<rceil>) \<and>
         length (queue (run rt w reqs)) = length reqs - min (length reqs) (nat \<lceil>q\<rceil>)"
proof -
  let ?w = "run rt w reqs"
  note s = submissions[OF assms(1,3)]
  from s have sat: "saturating ?w" and cap: "maxTasks ?w = Finite q"
    and total: "length (pending ?w) + length (queue ?w) = length reqs"
    by (simp_all add: assms(4,5,6))
  have "within_cap ?w" by (rule run_within_cap[OF assms(2)])
  from saturating_counts[OF sat this cap assms(7)] total
  have "length (pending ?w) = min (length reqs) (nat \<lceil>q\<rceil>)" by simp
  with total show ?thesis by simp
qed

lemma agent_only_saturating:
  "saturating (Connection rt (CfgObject (empty_config\<lparr>cfg_agentOptions := ao\<rparr>)))"
  by (simp add: saturating_def Connection_def Let_def empty_config_def initial_urls_def
      addToHostList_def host_index_def sanitizeEndpointUrl_def createRequest_def)

lemma ten_submissions:
  assumes "length reqs = 10" and "\<forall>ev \<in> set reqs. unpinned_request rt ev"
  shows "length (pending (run rt (Connection rt config_3_keepAlive) reqs)) = 6 \<and>
         length (queue (run rt (Connection rt config_3_keepAlive) reqs)) = 4"
  using saturating_run[OF start_3_keepAlive_saturating Connection_within_cap assms(2),
      where q = 6]
  by (simp add: start_3_keepAlive Connection_idle assms(1))

lemma maxTasks_cases:
  fixes rt cfg
  defines "M \<equiv> property (merged_agentOptions rt (normalize_config cfg)) ''maxSockets''"
    and "K \<equiv> truthy_val (property (merged_agentOptions rt (normalize_config cfg)) ''keepAlive'')"
  shows "(M = Number (Finite q) \<and> q \<noteq> 0 \<longrightarrow>
            maxTasks (Connection rt cfg) = Finite (q * (if K then 2 else 1))) \<and>
         (M = Boolean True \<longrightarrow>
            maxTasks (Connection rt cfg) = Finite (1 * (if K then 2 else 1))) \<and>
         (\<not> truthy_val M \<longrightarrow>
            maxTasks (Connection rt cfg) = Finite (3 * (if K then 2 else 1))) \<and>
         (M = Number PlusInfinity \<longrightarrow> maxTasks (Connection rt cfg) = PlusInfinity) \<and>
         (M = Number MinusInfinity \<longrightarrow> maxTasks (Connection rt cfg) = MinusInfinity)"
  unfolding M_def K_def
  by (simp add: Connection_maxTasks initial_maxTasks_def Let_def or_3_def)

lemma resolve_shadowed:
  "res_body res \<noteq> [] \<Longrightarrow> matches_json (res_headers res ''content-type'') \<Longrightarrow>
   JSON_parse rt (res_body res) = Some v \<Longrightarrow> shadows_hasOwnProperty v \<Longrightarrow>
   resolve rt expectBinary res = Inl TypeError"
  by (cases v) (simp_all add: resolve_def classify_def)

text \<open>
  A decoded body with an own property \<^verbatim>\<open>hasOwnProperty\<close> makes the transport callback
  raise: the counter is decremented, no callback of the caller runs and
  \<^verbatim>\<open>_runQueue\<close> is not called again.
\<close>

lemma completion_shadowed:
  assumes "k < length (pending w)"
    and "\<not> (statusCode res = Some 503 \<and> truthy_str (res_headers res LEADER_ENDPOINT_HEADER))"
    and "res_body res \<noteq> []" and "matches_json (res_headers res ''content-type'')"
    and "JSON_parse rt (res_body res) = Some v" and "shadows_hasOwnProperty v"
  shows "completion rt k (Responded res) w =
           w\<lparr>activeTasks := activeTasks w - 1,
             pending := take k (pending w) @ drop (Suc k) (pending w),
             log := log w @ [Throws TypeError]\<rparr>"
proof -
  have r: "resolve rt b (res\<lparr>res_host := h\<rparr>) = Inl TypeError" for b h
    by (rule resolve_shadowed[where v = v]) (simp_all add: assms)
  from assms(2) have n: "(statusCode res = Some 503 \<and>
      truthy_str (res_headers res LEADER_ENDPOINT_HEADER)) = False"
    by simp
  show ?thesis
    using assms(1) by (simp add: completion_def Let_def callback_raises_def callback_def r n)
qed

lemma special_caps:
  "maxTasks (Connection rt (CfgObject zero_sockets)) = Finite 6"
  "maxTasks (Connection rt (CfgObject negative_sockets)) = Finite (- 2)"
  "maxTasks (Connection rt (CfgObject fractional_sockets)) = Finite (5 / 2)"
  by (simp_all add: Connection_maxTasks initial_maxTasks_def Let_def or_3_def
      zero_sockets_def negative_sockets_def fractional_sockets_def empty_config_def
      merged_agentOptions_def spread_def default_agentOptions_def property_def map_add_def)

lemma runQueue_log:
  "log (runQueue w) = log w \<or> log (runQueue w) = log w @ [Throws TypeError]"
  using runQueue_effect[of w] by auto

lemma runQueue_shrinks:
  "length (pending (runQueue w)) + length (queue (runQueue w))
     \<le> length (pending w) + length (queue w)"
  using runQueue_effect[of w] by (cases "queue w") auto

lemma redirect_index:
  "fst (addToHostList (One url) c) =
     [indexOf (urls (snd (addToHostList (One url) c))) (sanitizeEndpointUrl url)]"
  by (simp add: addToHostList_fst)

lemma redirect_index_valid:
  "0 \<le> indexOf (urls (snd (addToHostList (One url) c))) (sanitizeEndpointUrl url) \<and>
   nat (indexOf (urls (snd (addToHostList (One url) c))) (sanitizeEndpointUrl url))
     < length (urls (snd (addToHostList (One url) c))) \<and>
   urls (snd (addToHostList (One url) c)) !
     nat (indexOf (urls (snd (addToHostList (One url) c))) (sanitizeEndpointUrl url))
     = sanitizeEndpointUrl url"
  by (rule indexOf_in) (simp add: addToHostList_covers)

lemmas start_defs =
  Connection_def Let_def empty_config_def merged_agentOptions_def spread_def
  default_agentOptions_def initial_maxTasks_def property_def or_3_def initial_urls_def
  addToHostList_def map_add_def sanitizeEndpointUrl_def createRequest_def

lemma start_single_host:
  "queue (Connection rt single_host) = []"
  "pending (Connection rt single_host) = []"
  "log (Connection rt single_host) = []"
  "activeTasks (Connection rt single_host) = 0"
  "maxTasks (Connection rt single_host) = Finite (if isBrowser rt then 3 else 6)"
  "loadBalancingStrategy (Connection rt single_host) = NONE"
  "useFailOver (Connection rt single_host) = True"
  "activeHost (Connection rt single_host) = Num 0"
  "hosts (Connection rt single_host) = [Transport ''http://a:1'']"
  "urls (Connection rt single_host) = [''http://a:1'']"
  by (simp_all add: start_defs single_host_def)

lemma start_two_hosts:
  "queue (Connection rt two_hosts) = []"
  "pending (Connection rt two_hosts) = []"
  "log (Connection rt two_hosts) = []"
  "activeTasks (Connection rt two_hosts) = 0"
  "maxTasks (Connection rt two_hosts) = Finite (if isBrowser rt then 3 else 6)"
  "loadBalancingStrategy (Connection rt two_hosts) = NONE"
  "useFailOver (Connection rt two_hosts) = True"
  "activeHost (Connection rt two_hosts) = Num 0"
  "hosts (Connection rt two_hosts) = [Transport ''http://a:1'', Transport ''http://b:1'']"
  "urls (Connection rt two_hosts) = [''http://a:1'', ''http://b:1'']"
  by (simp_all add: start_defs two_hosts_def)

lemma leader_response_fields:
  "statusCode leader_response = Some 503"
  "res_headers leader_response LEADER_ENDPOINT_HEADER = Some ''tcp://leader:8529''"
  by (simp_all add: leader_response_def LEADER_ENDPOINT_HEADER_def)

lemma register_leader:
  "urls (snd (addToHostList (One ''tcp://leader:8529'') (Connection rt single_host)))
     = [''http://a:1'', ''http://leader:8529'']"
  "hosts (snd (addToHostList (One ''tcp://leader:8529'') (Connection rt single_host)))
     = [Transport ''http://a:1'', Transport ''http://leader:8529'']"
  "sanitizeEndpointUrl ''tcp://leader:8529'' = ''http://leader:8529''"
  by (simp_all add: addToHostList_urls addToHostList_hosts start_single_host
      sanitizeEndpointUrl_def createRequest_def)

lemma request_pinned:
  assumes "encodeBody rt opts = Inr (b, ct)" "opt_host opts = Some h"
    and "queue w = []" "\<not> reached (activeTasks w) (maxTasks w)"
    and "0 \<le> h" "nat h < length (hosts w)"
  shows "request rt opts cb w =
     w\<lparr>activeTasks := activeTasks w + 1,
       pending := pending w @ [(makeTask rt w opts cb b ct, nat h)]\<rparr>"
proof -
  let ?t = "makeTask rt w opts cb b ct"
  let ?w = "w\<lparr>queue := queue w @ [?t]\<rparr>"
  have q: "queue ?w = ?t # []" using assms(3) by simp
  have c: "\<not> reached (activeTasks ?w) (maxTasks ?w)" using assms(4) by simp
  have h: "host_index (hosts ?w)
             (case task_host ?t of Some h \<Rightarrow> Num h | None \<Rightarrow> activeHost ?w) = Some (nat h)"
    using assms(2,5,6) by (simp add: makeTask_fields host_index_def)
  show ?thesis
    unfolding request_encoded[OF assms(1)] runQueue_dispatch[OF q c h]
    using assms(2,3) by (simp add: makeTask_fields)
qed

lemma encode_pinned: "encodeBody rt pinned_get = Inr (None, ''text/plain'')"
  by (simp add: encodeBody_def pinned_get_def plain_get_def)

lemma pinned_get_host: "opt_host pinned_get = Some 0"
  by (simp add: pinned_get_def)

lemma redirected_pinned_request:
  "map snd (pending (run rt (Connection rt single_host)
     [Request pinned_get 1, Complete 0 (Responded leader_response)])) = [1] \<and>
   map (task_host \<circ> fst) (pending (run rt (Connection rt single_host)
     [Request pinned_get 1, Complete 0 (Responded leader_response)])) = [Some 1]"
proof -
  let ?W = "Connection rt single_host"
  define t where "t = makeTask rt ?W pinned_get 1 None ''text/plain''"
  define w1 where "w1 = request rt pinned_get 1 ?W"
  have w1: "w1 = ?W\<lparr>activeTasks := 1, pending := [(t, 0)]\<rparr>"
    unfolding w1_def t_def
    using request_pinned[OF encode_pinned pinned_get_host, of ?W rt 1]
    by (simp add: start_single_host)
  have th: "task_host t = Some 0"
    by (simp add: t_def makeTask_fields pinned_get_host)
  let ?w0 = "w1\<lparr>pending := []\<rparr>"
  let ?c = "callback rt t 0 (Responded leader_response) ?w0"
  have c: "queue ?c = [t\<lparr>task_host := Some 1\<rparr>] \<and> pending ?c = [] \<and> activeTasks ?c = 0 \<and>
           maxTasks ?c = maxTasks ?W \<and>
           hosts ?c = [Transport ''http://a:1'', Transport ''http://leader:8529'']"
    using callback_redirect[of leader_response "''tcp://leader:8529''" rt t 0 ?w0]
    by (simp add: leader_response_fields Let_def w1 start_single_host
        addToHostList_frame addToHostList_world_frame addToHostList_urls addToHostList_hosts
        sanitizeEndpointUrl_def createRequest_def)
  have cap: "\<not> reached (activeTasks ?c) (maxTasks ?c)"
    using c by (simp add: start_single_host)
  have hi: "host_index (hosts ?c)
      (case task_host (t\<lparr>task_host := Some 1\<rparr>) of Some h \<Rightarrow> Num h | None \<Rightarrow> activeHost ?c)
      = Some 1"
    using c by (simp add: host_index_def)
  have "pending (runQueue ?c) = [(t\<lparr>task_host := Some 1\<rparr>, 1)]"
    using runQueue_dispatch[OF conjunct1[OF c] cap hi] c by simp
  moreover have "run rt ?W [Request pinned_get 1, Complete 0 (Responded leader_response)]
      = completion rt 0 (Responded leader_response) w1"
    by (simp only: run_Cons run_Nil step.simps w1_def)
  moreover have "completion rt 0 (Responded leader_response) w1 = runQueue ?c"
    by (simp add: completion_def w1 Let_def
        callback_raises_simps(2)[of leader_response "''tcp://leader:8529''"]
        leader_response_fields)
  ultimately show ?thesis by simp
qed

lemma or_3_falsy: "\<not> truthy_val v \<Longrightarrow> or_3 v = Finite 3"
  by (simp add: or_3_def)

lemma merged_property:
  "property (merged_agentOptions rt config) key =
     (case spread (cfg_agentOptions config) key of
        Some v \<Rightarrow> v
      | None \<Rightarrow> (if isBrowser rt then Undefined else property default_agentOptions key))"
  by (simp add: merged_agentOptions_def property_def map_add_def split: option.splits)

lemma default_properties:
  "property default_agentOptions ''maxSockets'' = Number (Finite 3)"
  "property default_agentOptions ''keepAlive'' = Boolean True"
  by (simp_all add: default_agentOptions_def property_def)

lemma merged_maxSockets_falsy:
  assumes "\<not> truthy_val (property (spread (cfg_agentOptions config)) ''maxSockets'')"
  shows "or_3 (property (merged_agentOptions rt config) ''maxSockets'') = Finite 3"
proof (cases "spread (cfg_agentOptions config) ''maxSockets''")
  case None
  then show ?thesis by (simp add: merged_property default_properties or_3_def)
next
  case (Some v)
  with assms have "\<not> truthy_val v" by (simp add: property_def)
  with Some show ?thesis by (simp add: merged_property or_3_falsy)
qed

lemma merged_keepAlive_truthy:
  assumes "truthy_val (property (spread (cfg_agentOptions config)) ''keepAlive'')"
  shows "truthy_val (property (merged_agentOptions rt config) ''keepAlive'')"
proof (cases "spread (cfg_agentOptions config) ''keepAlive''")
  case None
  with assms show ?thesis by (simp add: property_def)
next
  case (Some v)
  with assms have "truthy_val v" by (simp add: property_def)
  with Some show ?thesis by (simp add: merged_property)
qed

lemma content_type_header:
  "requestHeaders rt c opts body ct ''content-type'' =
     (case opt_headers opts ''content-type'' of None \<Rightarrow> Some ct | Some v \<Rightarrow> Some v)"
  by (simp add: requestHeaders_def Let_def map_add_def split: option.splits)

lemma stringify_examples:
  "stringify object_a1 = ''{\"a\":1}''"
  "stringify object_b2 = ''{\"b\":2}''"
  by (simp_all add: object_a1_def object_b2_def quote_def quote_char_def String_int_def)

lemma classify_Raw:
  "classify expectBinary res (Raw bs) =
     (if (case statusCode res of None \<Rightarrow> False | Some s \<Rightarrow> 400 \<le> s)
      then Inr (HttpError (with_body res (Raw bs)))
      else Inr (Success (if \<not> expectBinary then with_body res (Raw bs)
                         else with_body res (Raw (res_body res)))))"
  by (auto simp: classify_def split: option.splits)

lemma resolve_decoded:
  "res_body res \<noteq> [] \<Longrightarrow> matches_json (res_headers res ''content-type'') \<Longrightarrow>
   JSON_parse rt (res_body res) = Some v \<Longrightarrow>
   resolve rt expectBinary res = classify expectBinary res (Parsed v)"
  by (simp add: resolve_def)

lemma resolve_undecodable:
  "res_body res \<noteq> [] \<Longrightarrow> matches_json (res_headers res ''content-type'') \<Longrightarrow>
   JSON_parse rt (res_body res) = None \<Longrightarrow>
   resolve rt expectBinary res =
     (if \<not> expectBinary then Inr (DecodeError res)
      else classify expectBinary res (Raw (res_body res)))"
  by (simp add: resolve_def)

lemma js_and_values: "js_and (Inr a) (Inr b) = Inr (a \<and> b)"
  by (cases a) simp_all

lemma four_properties:
  "\<not> shadows_hasOwnProperty v \<Longrightarrow>
   js_and (Inr (truthy v))
     (js_and (hasOwnProperty (Parsed v) ''error'')
       (js_and (hasOwnProperty (Parsed v) ''code'')
         (js_and (hasOwnProperty (Parsed v) ''errorMessage'')
           (hasOwnProperty (Parsed v) ''errorNum''))))
   = Inr (\<exists>kvs. v = JObj kvs \<and> error_fields \<subseteq> set (map fst kvs))"
  by (cases v) (auto simp: error_fields_def js_and_values)

lemma classify_shadowed:
  "shadows_hasOwnProperty v \<Longrightarrow> classify expectBinary res (Parsed v) = Inl TypeError"
  by (cases v) (simp_all add: classify_def)

lemma four_present:
  "\<not> shadows_hasOwnProperty v \<Longrightarrow>
   \<exists>kvs. v = JObj kvs \<and> error_fields \<subseteq> set (map fst kvs) \<Longrightarrow>
   js_and (Inr (truthy v))
     (js_and (hasOwnProperty (Parsed v) ''error'')
       (js_and (hasOwnProperty (Parsed v) ''code'')
         (js_and (hasOwnProperty (Parsed v) ''errorMessage'')
           (hasOwnProperty (Parsed v) ''errorNum'')))) = Inr True"
  using four_properties[of v] by simp

lemma four_absent:
  "\<not> shadows_hasOwnProperty v \<Longrightarrow>
   \<not> (\<exists>kvs. v = JObj kvs \<and> error_fields \<subseteq> set (map fst kvs)) \<Longrightarrow>
   js_and (Inr (truthy v))
     (js_and (hasOwnProperty (Parsed v) ''error'')
       (js_and (hasOwnProperty (Parsed v) ''code'')
         (js_and (hasOwnProperty (Parsed v) ''errorMessage'')
           (hasOwnProperty (Parsed v) ''errorNum'')))) = Inr False"
  using four_properties[of v] by simp

lemma classify_ApplicationError:
  assumes "\<not> shadows_hasOwnProperty v"
  shows "isApplicationError (classify expectBinary res (Parsed v))
     = (\<exists>kvs. v = JObj kvs \<and> error_fields \<subseteq> set (map fst kvs))"
proof (cases "\<exists>kvs. v = JObj kvs \<and> error_fields \<subseteq> set (map fst kvs)")
  case True
  from four_present[OF assms True] True show ?thesis by (simp add: classify_def)
next
  case False
  from four_absent[OF assms False] False show ?thesis by (simp add: classify_def)
qed

lemma classify_four:
  assumes "error_fields \<subseteq> set (map fst kvs)" and "''hasOwnProperty'' \<notin> set (map fst kvs)"
  shows "classify expectBinary res (Parsed (JObj kvs))
     = Inr (ApplicationError (with_body res (Parsed (JObj kvs))))"
proof -
  have "\<not> shadows_hasOwnProperty (JObj kvs)" using assms(2) by simp
  from four_present[OF this] assms(1) show ?thesis by (simp add: classify_def)
qed

lemma json_response_fields:
  "res_body (json_response status text) = text"
  "statusCode (json_response status text) = Some status"
  "matches_json (res_headers (json_response status text) ''content-type'')"
  by (simp_all add: json_response_def matches_json_def word_then_boundary_def word_char_def)

lemma example_parse_values:
  "JSON_parse node conflict_text = Some conflict_json"
  "JSON_parse node conflict_extra_text = Some conflict_extra_json"
  "JSON_parse node ''{'' = None"
  by (simp_all add: node_def example_parse_def conflict_text_def conflict_extra_text_def)

lemma conflict_texts:
  "stringify conflict_json = conflict_text"
  "stringify conflict_extra_json = conflict_extra_text"
  "conflict_text \<noteq> []" "conflict_extra_text \<noteq> []"
  by (simp_all add: conflict_json_def conflict_extra_json_def conflict_text_def
      conflict_extra_text_def quote_def quote_char_def String_int_def)

section \<open>Properties of the connection\<close>

text \<open>
  C1 fails as stated; the code does the opposite in both cases. A body \<^verbatim>\<open>{\<close> of
  content type \<^verbatim>\<open>application/json\<close> does not decode: without the binary flag the
  caller receives the decode error carrying the response, not a text body; with
  the binary flag the caller receives a success carrying the raw body, not an
  error.
\<close>

theorem decode_failure_counterexample:
  "resolve node False (json_response 200 ''{'') = Inr (DecodeError (json_response 200 ''{'')) \<and>
   resolve node True (json_response 200 ''{'')
     = Inr (Success (with_body (json_response 200 ''{'') (Raw ''{'')))"
  by (simp add: resolve_undecodable json_response_fields example_parse_values classify_Raw)

text \<open>
  C1, amended. For every completed response whose body is non-empty, whose
  content type matches the JSON pattern and whose body fails to decode: if the
  binary flag was not requested, the decode failure is passed to the caller as an
  error carrying the original response; if the binary flag was requested, the
  failure is swallowed and the raw body is delivered undecoded, as an HttpError
  when the status is 400 or more and as a Success otherwise. What \<^verbatim>\<open>resolve\<close>
  computes is what the callback of the transport call hands to the caller for
  every response that is not a leader redirect.
\<close>

theorem decode_failure:
  "(res_body res \<noteq> [] \<and> matches_json (res_headers res ''content-type'') \<and>
    JSON_parse rt (res_body res) = None \<longrightarrow>
      resolve rt False res = Inr (DecodeError res) \<and>
      resolve rt True res =
        (if (case statusCode res of None \<Rightarrow> False | Some s \<Rightarrow> 400 \<le> s)
         then Inr (HttpError (with_body res (Raw (res_body res))))
         else Inr (Success (with_body res (Raw (res_body res)))))) \<and>
   (statusCode response \<noteq> Some 503 \<or>
    \<not> truthy_str (res_headers response LEADER_ENDPOINT_HEADER) \<longrightarrow>
      log (callback rt task host (Responded response) w) =
        log w @ [deliver (task_cb task)
                   (resolve rt (w_expectBinary (task_options task))
                      (response\<lparr>res_host := Some host\<rparr>))])"
proof -
  have failure: "resolve rt False res = Inr (DecodeError res) \<and>
      resolve rt True res =
        (if (case statusCode res of None \<Rightarrow> False | Some s \<Rightarrow> 400 \<le> s)
         then Inr (HttpError (with_body res (Raw (res_body res))))
         else Inr (Success (with_body res (Raw (res_body res)))))"
    if "res_body res \<noteq> [] \<and> matches_json (res_headers res ''content-type'') \<and>
        JSON_parse rt (res_body res) = None"
    using that by (simp add: resolve_undecodable classify_Raw)
  have delivered: "log (callback rt task host (Responded response) w) =
        log w @ [deliver (task_cb task)
                   (resolve rt (w_expectBinary (task_options task))
                      (response\<lparr>res_host := Some host\<rparr>))]"
    if "statusCode response \<noteq> Some 503 \<or>
        \<not> truthy_str (res_headers response LEADER_ENDPOINT_HEADER)"
    using callback_resolve[OF that, of rt task host w] by simp
  from failure delivered show ?thesis by blast
qed

theorem decode_failure_witness:
  "res_body (json_response 500 ''{'') \<noteq> [] \<and>
   matches_json (res_headers (json_response 500 ''{'') ''content-type'') \<and>
   JSON_parse node (res_body (json_response 500 ''{'')) = None \<and>
   resolve node False (json_response 500 ''{'') = Inr (DecodeError (json_response 500 ''{'')) \<and>
   resolve node True (json_response 500 ''{'')
     = Inr (HttpError (with_body (json_response 500 ''{'') (Raw ''{''))) \<and>
   log (callback node (makeTask node unregistered plain_get 7 None ''text/plain'') 0
          (Responded (json_response 500 ''{'')) (Connection node single_host))
     = [Callback 7 (DecodeError (json_response 500 ''{''))]"
proof -
  have h: "(json_response 500 ''{'')\<lparr>res_host := Some 0\<rparr> = json_response 500 ''{''"
    by (simp add: json_response_def)
  show ?thesis
    using decode_failure[of "json_response 500 ''{''" node "json_response 500 ''{''"
        "makeTask node unregistered plain_get 7 None ''text/plain''" 0
        "Connection node single_host"]
    by (simp add: json_response_fields example_parse_values start_single_host makeTask_fields
        plain_get_def h)
qed

text \<open>
  C2 fails as stated: the classifier asks only whether the four properties are
  present. A decoded object with a fifth property is an ApplicationError as
  well.
\<close>

theorem application_error_counterexample:
  "JSON_parse node (res_body (json_response 200 conflict_extra_text))
     = Some (JObj [(''error'', JBool True), (''code'', JNum 409), (''errorNum'', JNum 1200),
                   (''errorMessage'', JStr ''conflict''), (''extra'', JNum 1)]) \<and>
   resolve node False (json_response 200 conflict_extra_text)
     = Inr (ApplicationError (with_body (json_response 200 conflict_extra_text)
         (Parsed (JObj [(''error'', JBool True), (''code'', JNum 409), (''errorNum'', JNum 1200),
                        (''errorMessage'', JStr ''conflict''), (''extra'', JNum 1)]))))"
proof -
  have f: "error_fields \<subseteq> set (map fst
      [(''error'', JBool True), (''code'', JNum 409), (''errorNum'', JNum 1200),
       (''errorMessage'', JStr ''conflict''), (''extra'', JNum 1)])"
    by (simp add: error_fields_def)
  have p: "JSON_parse node (res_body (json_response 200 conflict_extra_text))
     = Some (JObj [(''error'', JBool True), (''code'', JNum 409), (''errorNum'', JNum 1200),
                   (''errorMessage'', JStr ''conflict''), (''extra'', JNum 1)])"
    by (simp add: json_response_fields example_parse_values conflict_extra_json_def)
  have "resolve node False (json_response 200 conflict_extra_text) =
      classify False (json_response 200 conflict_extra_text)
        (Parsed (JObj [(''error'', JBool True), (''code'', JNum 409), (''errorNum'', JNum 1200),
                       (''errorMessage'', JStr ''conflict''), (''extra'', JNum 1)]))"
    by (rule resolve_decoded[OF _ _ p])
       (simp_all add: json_response_fields conflict_texts)
  with classify_four[OF f] p show ?thesis by simp
qed

text \<open>
  C2, amended. For every completed response whose body is decoded from JSON to
  a value that has no own property named \<^verbatim>\<open>hasOwnProperty\<close>, the outcome is an
  ApplicationError if and only if the decoded value is an object that has at
  least the four properties \<^verbatim>\<open>error\<close>, \<^verbatim>\<open>code\<close>, \<^verbatim>\<open>errorMessage\<close> and
  \<^verbatim>\<open>errorNum\<close>; the outcome then carries the response with the decoded body. The
  classification does not depend on the status code: a response of status 200
  with the body
  \<^verbatim>\<open>{"error":true,"code":409,"errorNum":1200,"errorMessage":"conflict"}\<close> is an
  ApplicationError.
\<close>

theorem application_error:
  "(res_body res \<noteq> [] \<and> matches_json (res_headers res ''content-type'') \<and>
    JSON_parse rt (res_body res) = Some v \<and> \<not> shadows_hasOwnProperty v \<longrightarrow>
      isApplicationError (resolve rt expectBinary res)
        = (\<exists>kvs. v = JObj kvs \<and> error_fields \<subseteq> set (map fst kvs)) \<and>
      isApplicationError (resolve rt expectBinary (res\<lparr>statusCode := status\<rparr>))
        = isApplicationError (resolve rt expectBinary res) \<and>
      ((\<exists>kvs. v = JObj kvs \<and> error_fields \<subseteq> set (map fst kvs)) \<longrightarrow>
         resolve rt expectBinary res = Inr (ApplicationError (with_body res (Parsed v))))) \<and>
   resolve node expectBinary (json_response 200 conflict_text)
     = Inr (ApplicationError (with_body (json_response 200 conflict_text) (Parsed conflict_json)))"
proof -
  have general:
    "isApplicationError (resolve rt expectBinary r)
        = (\<exists>kvs. v = JObj kvs \<and> error_fields \<subseteq> set (map fst kvs)) \<and>
     ((\<exists>kvs. v = JObj kvs \<and> error_fields \<subseteq> set (map fst kvs)) \<longrightarrow>
         resolve rt expectBinary r = Inr (ApplicationError (with_body r (Parsed v))))"
    if "res_body r \<noteq> [] \<and> matches_json (res_headers r ''content-type'') \<and>
        JSON_parse rt (res_body r) = Some v \<and> \<not> shadows_hasOwnProperty v" for r rt v
  proof -
    have d: "resolve rt expectBinary r = classify expectBinary r (Parsed v)"
      using that by (simp add: resolve_decoded)
    have n: "\<not> shadows_hasOwnProperty v" using that by simp
    have four: "classify expectBinary r (Parsed v) = Inr (ApplicationError (with_body r (Parsed v)))"
      if "\<exists>kvs. v = JObj kvs \<and> error_fields \<subseteq> set (map fst kvs)"
    proof -
      from that obtain kvs where k: "v = JObj kvs" "error_fields \<subseteq> set (map fst kvs)"
        by blast
      with n have "''hasOwnProperty'' \<notin> set (map fst kvs)" by simp
      from classify_four[OF k(2) this] k(1) show ?thesis by simp
    qed
    show ?thesis
      unfolding d using classify_ApplicationError[OF n, of expectBinary r] four
      by blast
  qed
  have status: "isApplicationError (resolve rt expectBinary (res\<lparr>statusCode := status\<rparr>))
        = isApplicationError (resolve rt expectBinary res)"
    if a: "res_body res \<noteq> [] \<and> matches_json (res_headers res ''content-type'') \<and>
        JSON_parse rt (res_body res) = Some v \<and> \<not> shadows_hasOwnProperty v"
  proof -
    from a have "res_body (res\<lparr>statusCode := status\<rparr>) \<noteq> [] \<and>
        matches_json (res_headers (res\<lparr>statusCode := status\<rparr>) ''content-type'') \<and>
        JSON_parse rt (res_body (res\<lparr>statusCode := status\<rparr>)) = Some v \<and>
        \<not> shadows_hasOwnProperty v"
      by simp
    from general[OF this] general[OF a] show ?thesis by simp
  qed
  have c: "error_fields \<subseteq> set (map fst
      [(''error'', JBool True), (''code'', JNum 409), (''errorNum'', JNum 1200),
       (''errorMessage'', JStr ''conflict'')])"
    by (simp add: error_fields_def)
  have "res_body (json_response 200 conflict_text) \<noteq> [] \<and>
      matches_json (res_headers (json_response 200 conflict_text) ''content-type'') \<and>
      JSON_parse node (res_body (json_response 200 conflict_text)) = Some conflict_json \<and>
      \<not> shadows_hasOwnProperty conflict_json"
    by (simp add: json_response_fields example_parse_values conflict_texts conflict_json_def)
  from general[OF this] c
  have example: "resolve node expectBinary (json_response 200 conflict_text)
     = Inr (ApplicationError (with_body (json_response 200 conflict_text) (Parsed conflict_json)))"
    by (simp add: conflict_json_def)
  from general[of res rt v] status example show ?thesis by blast
qed

theorem application_error_witness:
  "res_body (json_response 409 conflict_text) \<noteq> [] \<and>
   matches_json (res_headers (json_response 409 conflict_text) ''content-type'') \<and>
   JSON_parse node (res_body (json_response 409 conflict_text)) = Some conflict_json \<and>
   \<not> shadows_hasOwnProperty conflict_json \<and>
   isApplicationError (resolve node False (json_response 409 conflict_text)) \<and>
   isApplicationError (resolve node False ((json_response 409 conflict_text)\<lparr>statusCode := Some 200\<rparr>))"
proof -
  have c: "error_fields \<subseteq> set (map fst
      [(''error'', JBool True), (''code'', JNum 409), (''errorNum'', JNum 1200),
       (''errorMessage'', JStr ''conflict'')])"
    by (simp add: error_fields_def)
  show ?thesis
    using application_error[of "json_response 409 conflict_text" node conflict_json False "Some 200"] c
    by (simp add: json_response_fields example_parse_values conflict_texts conflict_json_def)
qed

text \<open>
  C3. When a call completes with a response of status 503 whose
  \<^verbatim>\<open>x-arango-endpoint\<close> header is a non-empty string, the callback invokes
  neither \<^verbatim>\<open>resolve\<close> nor \<^verbatim>\<open>reject\<close>: nothing is delivered to the caller. The
  header's URL is registered with \<^verbatim>\<open>addToHostList\<close>, which yields an index \<open>i\<close> of the
  registry holding the normalized URL; the task gets \<open>i\<close> as its host; the active
  host index becomes \<open>i\<close> if it equals the index of the host that answered and
  stays as it is otherwise; the task is appended at the back of the queue. The
  run of the queue that ends the callback delivers nothing to a caller either.
\<close>

theorem leader_redirect:
  "statusCode response = Some 503 \<and>
   res_headers response LEADER_ENDPOINT_HEADER = Some url \<and> url \<noteq> [] \<longrightarrow>
     (let w1 = callback rt task host (Responded response) w;
          i = indexOf (urls w1) (sanitizeEndpointUrl url)
      in fst (addToHostList (One url) w) = [i] \<and>
         urls w1 = urls (snd (addToHostList (One url) w)) \<and>
         hosts w1 = hosts (snd (addToHostList (One url) w)) \<and>
         0 \<le> i \<and> nat i < length (urls w1) \<and> urls w1 ! nat i = sanitizeEndpointUrl url \<and>
         queue w1 = queue w @ [task\<lparr>task_host := Some i\<rparr>] \<and>
         activeHost w1 = (if activeHost w = Num (int host) then Num i else activeHost w) \<and>
         log w1 = log w \<and> pending w1 = pending w \<and> activeTasks w1 = activeTasks w - 1) \<and>
     (\<forall>cb out. Callback cb out \<in> set (log (completion rt k (Responded response) w)) \<longrightarrow>
        Callback cb out \<in> set (log w))"
proof (intro impI)
  assume a: "statusCode response = Some 503 \<and>
   res_headers response LEADER_ENDPOINT_HEADER = Some url \<and> url \<noteq> []"
  note cb = callback_redirect[of response url, OF conjunct1[OF a] conjunct1[OF conjunct2[OF a]]
      conjunct2[OF conjunct2[OF a]]]
  let ?w2 = "snd (addToHostList (One url) w)"
  let ?i = "indexOf (urls ?w2) (sanitizeEndpointUrl url)"
  let ?w1 = "callback rt task host (Responded response) w"
  have u: "urls ?w1 = urls ?w2" and h: "hosts ?w1 = hosts ?w2"
    by (simp_all add: cb Let_def)
  have q: "queue ?w1 = queue w @ [task\<lparr>task_host := Some ?i\<rparr>]"
    by (simp add: cb Let_def addToHostList_frame)
  have ah: "activeHost ?w1 = (if activeHost w = Num (int host) then Num ?i else activeHost w)"
    by (simp add: cb Let_def)
  have rest: "log ?w1 = log w \<and> pending ?w1 = pending w \<and> activeTasks ?w1 = activeTasks w - 1"
    by (simp add: cb Let_def addToHostList_world_frame)
  have first: "let w1 = ?w1; i = indexOf (urls w1) (sanitizeEndpointUrl url)
      in fst (addToHostList (One url) w) = [i] \<and>
         urls w1 = urls (snd (addToHostList (One url) w)) \<and>
         hosts w1 = hosts (snd (addToHostList (One url) w)) \<and>
         0 \<le> i \<and> nat i < length (urls w1) \<and> urls w1 ! nat i = sanitizeEndpointUrl url \<and>
         queue w1 = queue w @ [task\<lparr>task_host := Some i\<rparr>] \<and>
         activeHost w1 = (if activeHost w = Num (int host) then Num i else activeHost w) \<and>
         log w1 = log w \<and> pending w1 = pending w \<and> activeTasks w1 = activeTasks w - 1"
    unfolding Let_def u
    using redirect_index[of url w] redirect_index_valid[of url w] h q ah rest
    by simp
  have second: "Callback c out \<in> set (log w)"
    if m: "Callback c out \<in> set (log (completion rt k (Responded response) w))" for c out
  proof (cases "k < length (pending w)")
    case False
    with m show ?thesis by (simp add: completion_def)
  next
    case True
    let ?w0 = "w\<lparr>pending := take k (pending w) @ drop (Suc k) (pending w)\<rparr>"
    let ?c = "callback rt (fst (pending w ! k)) (snd (pending w ! k)) (Responded response) ?w0"
    have e: "completion rt k (Responded response) w = runQueue ?c"
      using True a
      by (simp add: completion_def Let_def callback_raises_simps(2)[of response url])
    have "log ?c = log w"
      using callback_redirect[of response url rt "fst (pending w ! k)" "snd (pending w ! k)" ?w0] a
      by (simp add: Let_def addToHostList_world_frame)
    with runQueue_log[of ?c] m e show ?thesis by auto
  qed
  from first second show "(let w1 = callback rt task host (Responded response) w;
          i = indexOf (urls w1) (sanitizeEndpointUrl url)
      in fst (addToHostList (One url) w) = [i] \<and>
         urls w1 = urls (snd (addToHostList (One url) w)) \<and>
         hosts w1 = hosts (snd (addToHostList (One url) w)) \<and>
         0 \<le> i \<and> nat i < length (urls w1) \<and> urls w1 ! nat i = sanitizeEndpointUrl url \<and>
         queue w1 = queue w @ [task\<lparr>task_host := Some i\<rparr>] \<and>
         activeHost w1 = (if activeHost w = Num (int host) then Num i else activeHost w) \<and>
         log w1 = log w \<and> pending w1 = pending w \<and> activeTasks w1 = activeTasks w - 1) \<and>
     (\<forall>cb out. Callback cb out \<in> set (log (completion rt k (Responded response) w)) \<longrightarrow>
        Callback cb out \<in> set (log w))"
    by blast
qed

theorem leader_redirect_witness:
  "statusCode leader_response = Some 503 \<and>
   res_headers leader_response LEADER_ENDPOINT_HEADER = Some ''tcp://leader:8529'' \<and>
   urls (callback node (makeTask node unregistered plain_get 7 None ''text/plain'') 0
           (Responded leader_response) (Connection node single_host))
     = [''http://a:1'', ''http://leader:8529''] \<and>
   map task_host (queue (callback node (makeTask node unregistered plain_get 7 None ''text/plain'') 0
           (Responded leader_response) (Connection node single_host))) = [Some 1] \<and>
   activeHost (callback node (makeTask node unregistered plain_get 7 None ''text/plain'') 0
           (Responded leader_response) (Connection node single_host)) = Num 1 \<and>
   log (callback node (makeTask node unregistered plain_get 7 None ''text/plain'') 0
           (Responded leader_response) (Connection node single_host)) = []"
  using leader_redirect[of leader_response "''tcp://leader:8529''" node
      "makeTask node unregistered plain_get 7 None ''text/plain''" 0
      "Connection node single_host" 0]
  by (simp add: leader_response_fields register_leader start_single_host Let_def)

text \<open>
  C4. When a call fails without a response, the callback delivers the error to
  the caller through \<^verbatim>\<open>reject\<close> (a TransportError) and leaves the queue and the
  pending calls as they are: the task is not queued again. The active host index
  moves to the next index modulo the number of registered hosts, and thereby
  changes, exactly when failover is on, more than one host is registered and
  the active index equals the index of the host that failed; with one host it
  does not change. Failover is on exactly when the strategy is not ROUND_ROBIN,
  in every execution. Over the whole completion the number of queued and
  pending tasks decreases.
\<close>

theorem transport_error:
  "(let w1 = callback rt task host (Failed e) w;
        n = length (hosts w)
    in log w1 = log w @ [Callback (task_cb task) (TransportError e)] \<and>
       queue w1 = queue w \<and> pending w1 = pending w \<and>
       hosts w1 = hosts w \<and> urls w1 = urls w \<and>
       activeHost w1 =
         (if useFailOver w \<and> 1 < n \<and> activeHost w = Num (int host)
          then Num (int ((host + 1) mod n)) else activeHost w) \<and>
       (activeHost w1 \<noteq> activeHost w) =
         (useFailOver w \<and> 1 < n \<and> activeHost w = Num (int host)) \<and>
       (n = 1 \<longrightarrow> activeHost w1 = activeHost w)) \<and>
   useFailOver (run rt (Connection rt cfg) evs) =
     (loadBalancingStrategy (run rt (Connection rt cfg) evs) \<noteq> ROUND_ROBIN) \<and>
   (k < length (pending w) \<longrightarrow>
      length (pending (completion rt k (Failed e) w)) + length (queue (completion rt k (Failed e) w))
        < length (pending w) + length (queue w) \<and>
      take (Suc (length (log w))) (log (completion rt k (Failed e) w))
        = log w @ [Callback (task_cb (fst (pending w ! k))) (TransportError e)])"
proof -
  let ?n = "length (hosts w)"
  let ?w1 = "callback rt task host (Failed e) w"
  have ah: "activeHost ?w1 =
         (if useFailOver w \<and> 1 < ?n \<and> activeHost w = Num (int host)
          then Num (int ((host + 1) mod ?n)) else activeHost w)"
  proof (cases "useFailOver w \<and> 1 < ?n \<and> activeHost w = Num (int host)")
    case True
    then have "?n \<noteq> 0" by auto
    with True show ?thesis
      by (simp add: callback_failed js_advance del: js_plus1.simps js_rem.simps)
  next
    case False
    then show ?thesis by (auto simp: callback_failed)
  qed
  have moved: "(activeHost ?w1 \<noteq> activeHost w) =
         (useFailOver w \<and> 1 < ?n \<and> activeHost w = Num (int host))"
  proof (cases "useFailOver w \<and> 1 < ?n \<and> activeHost w = Num (int host)")
    case True
    then have "1 < ?n" by simp
    from advance_moves[OF this, of host] True ah show ?thesis by simp
  next
    case False
    with ah show ?thesis by auto
  qed
  have one: "?n = 1 \<longrightarrow> activeHost ?w1 = activeHost w"
    using ah by auto
  have rest: "log ?w1 = log w @ [Callback (task_cb task) (TransportError e)] \<and>
       queue ?w1 = queue w \<and> pending ?w1 = pending w \<and>
       hosts ?w1 = hosts w \<and> urls ?w1 = urls w"
    by (simp add: callback_failed)
  have first: "let w1 = ?w1; n = ?n
    in log w1 = log w @ [Callback (task_cb task) (TransportError e)] \<and>
       queue w1 = queue w \<and> pending w1 = pending w \<and>
       hosts w1 = hosts w \<and> urls w1 = urls w \<and>
       activeHost w1 =
         (if useFailOver w \<and> 1 < n \<and> activeHost w = Num (int host)
          then Num (int ((host + 1) mod n)) else activeHost w) \<and>
       (activeHost w1 \<noteq> activeHost w) =
         (useFailOver w \<and> 1 < n \<and> activeHost w = Num (int host)) \<and>
       (n = 1 \<longrightarrow> activeHost w1 = activeHost w)"
    unfolding Let_def using rest ah moved one by blast
  have derived: "useFailOver (run rt (Connection rt cfg) evs) =
     (loadBalancingStrategy (run rt (Connection rt cfg) evs) \<noteq> ROUND_ROBIN)"
    using run_config[of rt "Connection rt cfg" evs] by (simp add: Connection_useFailOver)
  have whole:
    "length (pending (completion rt k (Failed e) w)) + length (queue (completion rt k (Failed e) w))
        < length (pending w) + length (queue w) \<and>
      take (Suc (length (log w))) (log (completion rt k (Failed e) w))
        = log w @ [Callback (task_cb (fst (pending w ! k))) (TransportError e)]"
    if k: "k < length (pending w)"
  proof -
    let ?w0 = "w\<lparr>pending := take k (pending w) @ drop (Suc k) (pending w)\<rparr>"
    let ?c = "callback rt (fst (pending w ! k)) (snd (pending w ! k)) (Failed e) ?w0"
    have e: "completion rt k (Failed e) w = runQueue ?c"
      using k by (simp add: completion_def Let_def callback_raises_simps(1))
    have l: "log ?c = log w @ [Callback (task_cb (fst (pending w ! k))) (TransportError e)]"
      by (simp add: callback_failed)
    have p: "length (pending ?c) + 1 = length (pending w)"
      using k by (simp add: callback_failed)
    have q: "length (queue ?c) = length (queue w)"
      by (simp add: callback_failed)
    from runQueue_shrinks[of ?c] p q
    have less: "length (pending (runQueue ?c)) + length (queue (runQueue ?c))
                  < length (pending w) + length (queue w)"
      by linarith
    from runQueue_log[of ?c] l
    have "take (Suc (length (log w))) (log (runQueue ?c))
            = log w @ [Callback (task_cb (fst (pending w ! k))) (TransportError e)]"
      by auto
    with less e show ?thesis by simp
  qed
  from first derived whole show ?thesis by blast
qed

theorem transport_error_witness:
  "activeHost (callback node (makeTask node unregistered plain_get 7 None ''text/plain'') 0
      (Failed (Err ''ECONNREFUSED'')) (Connection node two_hosts)) = Num 1 \<and>
   activeHost (callback node (makeTask node unregistered plain_get 7 None ''text/plain'') 0
      (Failed (Err ''ECONNREFUSED'')) (Connection node single_host)) = Num 0 \<and>
   log (callback node (makeTask node unregistered plain_get 7 None ''text/plain'') 0
      (Failed (Err ''ECONNREFUSED'')) (Connection node single_host))
     = [Callback 7 (TransportError (Err ''ECONNREFUSED''))] \<and>
   queue (callback node (makeTask node unregistered plain_get 7 None ''text/plain'') 0
      (Failed (Err ''ECONNREFUSED'')) (Connection node single_host)) = []"
  using
    transport_error[of node "makeTask node unregistered plain_get 7 None ''text/plain''" 0
      "Err ''ECONNREFUSED''" "Connection node two_hosts" two_hosts "[]" 1]
    transport_error[of node "makeTask node unregistered plain_get 7 None ''text/plain''" 0
      "Err ''ECONNREFUSED''" "Connection node single_host" single_host "[]" 1]
  by (simp add: start_two_hosts start_single_host Let_def makeTask_fields)

text \<open>
  C5 fails as stated, in three ways. An explicit \<^verbatim>\<open>maxSockets: 0\<close> counts as
  absent: with \<^verbatim>\<open>keepAlive\<close> the cap is 6, not 0 times 2, and a request is
  dispatched. With \<^verbatim>\<open>maxSockets: -1\<close> the cap is -2, which the number of calls in
  flight, 0, exceeds. With \<^verbatim>\<open>maxSockets: 2.5\<close> and no \<^verbatim>\<open>keepAlive\<close> the cap is 2.5 and
  three requests are all dispatched: the test \<^verbatim>\<open>_activeTasks >= _maxTasks\<close> is false
  at 2.
\<close>

theorem concurrency_cap_counterexample:
  "maxTasks (Connection node (CfgObject zero_sockets)) = Finite 6 \<and>
   length (pending (run node (Connection node (CfgObject zero_sockets))
     [Request plain_get 1])) = 1 \<and>
   maxTasks (Connection node (CfgObject negative_sockets)) = Finite (- 2) \<and>
   pending (Connection node (CfgObject negative_sockets)) = [] \<and>
   maxTasks (Connection node (CfgObject fractional_sockets)) = Finite (5 / 2) \<and>
   length (pending (run node (Connection node (CfgObject fractional_sockets))
     three_requests)) = 3"
proof -
  have one: "\<forall>ev \<in> set [Request plain_get 1]. unpinned_request node ev"
    by (simp add: unpinned_request_def encode_plain plain_get_unpinned) (simp add: plain_get_def)
  have three: "\<forall>ev \<in> set three_requests. unpinned_request node ev"
    by (auto simp: three_requests_def unpinned_request_def encode_plain plain_get_unpinned)
       (simp add: plain_get_def)
  have c: "\<lceil>5 / 2 :: rat\<rceil> = 3" by (simp add: ceiling_eq_iff)
  have a: "length (pending (run node (Connection node (CfgObject zero_sockets))
     [Request plain_get 1])) = 1"
  proof -
    have "saturating (Connection node (CfgObject zero_sockets))"
      unfolding zero_sockets_def by (rule agent_only_saturating)
    from saturating_run[OF this Connection_within_cap one, where q = 6]
    show ?thesis by (simp add: special_caps Connection_idle)
  qed
  have b: "length (pending (run node (Connection node (CfgObject fractional_sockets))
     three_requests)) = 3"
  proof -
    have "saturating (Connection node (CfgObject fractional_sockets))"
      unfolding fractional_sockets_def by (rule agent_only_saturating)
    from saturating_run[OF this Connection_within_cap three, where q = "5 / 2"]
    show ?thesis by (simp add: special_caps Connection_idle c three_requests_def)
  qed
  show ?thesis
    using a b by (simp add: special_caps Connection_idle)
qed

text \<open>
  C5, amended. The cap is fixed at construction: it is the socket limit times
  2 if \<^verbatim>\<open>keepAlive\<close> is truthy and times 1 otherwise, where the socket limit is
  \<^verbatim>\<open>maxSockets\<close> when that is truthy (\<^verbatim>\<open>true\<close> counting as 1) and 3 when it is absent
  or falsy, an explicit 0 included. At every point in any execution either no
  call is in flight or the number of calls in flight is below the cap plus 1.
  So it never exceeds a cap that is an integer and not negative, a fractional
  cap is rounded up, and under a negative cap nothing is dispatched. With
  \<^verbatim>\<open>maxSockets = 3\<close> and \<^verbatim>\<open>keepAlive = true\<close> the cap is 6, and ten requests (without a
  host and without the binary flag) submitted while no call completes leave 6
  calls in flight and 4 tasks queued.
\<close>

theorem concurrency_cap:
  "maxTasks (run rt (Connection rt cfg) evs) = maxTasks (Connection rt cfg) \<and>
   (property (merged_agentOptions rt (normalize_config cfg)) ''maxSockets'' = Number (Finite q) \<and>
    q \<noteq> 0 \<longrightarrow>
      maxTasks (Connection rt cfg) =
        Finite (q * (if truthy_val (property (merged_agentOptions rt (normalize_config cfg))
                          ''keepAlive'') then 2 else 1))) \<and>
   (property (merged_agentOptions rt (normalize_config cfg)) ''maxSockets'' = Boolean True \<longrightarrow>
      maxTasks (Connection rt cfg) =
        Finite (1 * (if truthy_val (property (merged_agentOptions rt (normalize_config cfg))
                          ''keepAlive'') then 2 else 1))) \<and>
   (\<not> truthy_val (property (merged_agentOptions rt (normalize_config cfg)) ''maxSockets'') \<longrightarrow>
      maxTasks (Connection rt cfg) =
        Finite (3 * (if truthy_val (property (merged_agentOptions rt (normalize_config cfg))
                          ''keepAlive'') then 2 else 1))) \<and>
   (property (merged_agentOptions rt (normalize_config cfg)) ''maxSockets'' = Number PlusInfinity \<longrightarrow>
      maxTasks (Connection rt cfg) = PlusInfinity) \<and>
   (property (merged_agentOptions rt (normalize_config cfg)) ''maxSockets'' = Number MinusInfinity \<longrightarrow>
      maxTasks (Connection rt cfg) = MinusInfinity) \<and>
   (maxTasks (Connection rt cfg) = Finite c \<longrightarrow>
      pending (run rt (Connection rt cfg) evs) = [] \<or>
      of_nat (length (pending (run rt (Connection rt cfg) evs))) < c + 1) \<and>
   (maxTasks (Connection rt cfg) = Finite (of_int n) \<and> 0 \<le> n \<longrightarrow>
      int (length (pending (run rt (Connection rt cfg) evs))) \<le> n) \<and>
   (maxTasks (Connection rt cfg) = MinusInfinity \<longrightarrow>
      pending (run rt (Connection rt cfg) evs) = []) \<and>
   (length reqs = 10 \<and> (\<forall>ev \<in> set reqs. unpinned_request rt ev) \<longrightarrow>
      maxTasks (Connection rt config_3_keepAlive) = Finite 6 \<and>
      length (pending (run rt (Connection rt config_3_keepAlive) reqs)) = 6 \<and>
      length (queue (run rt (Connection rt config_3_keepAlive) reqs)) = 4)"
proof -
  let ?w = "run rt (Connection rt cfg) evs"
  have fixed: "maxTasks ?w = maxTasks (Connection rt cfg)"
    using run_config[of rt "Connection rt cfg" evs] by simp
  have inv: "within_cap ?w"
    by (rule run_within_cap[OF Connection_within_cap])
  have below: "pending ?w = [] \<or> of_nat (length (pending ?w)) < c + 1"
    if "maxTasks (Connection rt cfg) = Finite c"
    using within_cap_bound[OF inv, of c] that fixed by simp
  have integer: "int (length (pending ?w)) \<le> n"
    if "maxTasks (Connection rt cfg) = Finite (of_int n) \<and> 0 \<le> n"
    using within_cap_integer[OF inv, of n] that fixed by simp
  have idle: "pending ?w = []"
    if "maxTasks (Connection rt cfg) = MinusInfinity"
    using within_cap_MinusInfinity[OF inv] that fixed by simp
  have ten: "maxTasks (Connection rt config_3_keepAlive) = Finite 6 \<and>
      length (pending (run rt (Connection rt config_3_keepAlive) reqs)) = 6 \<and>
      length (queue (run rt (Connection rt config_3_keepAlive) reqs)) = 4"
    if "length reqs = 10 \<and> (\<forall>ev \<in> set reqs. unpinned_request rt ev)"
    using ten_submissions[of reqs rt] that start_3_keepAlive(1)[of rt] by simp
  note caps = maxTasks_cases[of rt cfg q]
  show ?thesis
    apply (intro conjI)
    subgoal by (rule fixed)
    subgoal using caps by simp
    subgoal using caps by simp
    subgoal using caps by simp
    subgoal using caps by simp
    subgoal using caps by simp
    subgoal by (rule impI) (rule below)
    subgoal by (rule impI) (rule integer)
    subgoal by (rule impI) (rule idle)
    subgoal by (rule impI) (rule ten)
    done
qed

theorem concurrency_cap_witness:
  "property (merged_agentOptions node (normalize_config config_3_keepAlive)) ''maxSockets''
     = Number (Finite 3) \<and>
   truthy_val (property (merged_agentOptions node (normalize_config config_3_keepAlive))
     ''keepAlive'') \<and>
   maxTasks (Connection node config_3_keepAlive) = Finite 6 \<and>
   length ten_requests = 10 \<and>
   int (length (pending (run node (Connection node config_3_keepAlive) ten_requests))) \<le> 6 \<and>
   length (pending (run node (Connection node config_3_keepAlive) ten_requests)) = 6 \<and>
   length (queue (run node (Connection node config_3_keepAlive) ten_requests)) = 4"
proof -
  have a: "\<forall>ev \<in> set ten_requests. unpinned_request node ev"
    by (auto simp: ten_requests_def unpinned_request_def encode_plain plain_get_unpinned)
       (simp add: plain_get_def)
  have l: "length ten_requests = 10" by (simp add: ten_requests_def)
  have m: "property (merged_agentOptions node (normalize_config config_3_keepAlive)) ''maxSockets''
     = Number (Finite 3)"
    "truthy_val (property (merged_agentOptions node (normalize_config config_3_keepAlive))
     ''keepAlive'')"
    by (simp_all add: config_3_keepAlive_def empty_config_def merged_agentOptions_def spread_def
        default_agentOptions_def property_def map_add_def)
  show ?thesis
    using concurrency_cap[of node config_3_keepAlive ten_requests 3 6 6 ten_requests] a l m
    by simp
qed

text \<open>
  C6. \<^verbatim>\<open>addToHostList\<close> returns, for every input URL in input order, the index of
  the normalized URL in the registry as it is after the call, and that index is
  the first position of the registry holding the normalized URL. Registering again a URL
  that normalizes to one of the call's URLs leaves the connection as it is (no
  entry and no transport handle is added) and returns the same index. Only
  URLs unknown before the call are appended, one handle each; when all are
  known the connection is unchanged. Normalization rewrites \<^verbatim>\<open>tcp://\<close> to
  \<^verbatim>\<open>http://\<close> and \<^verbatim>\<open>ssl://\<close> to \<^verbatim>\<open>https://\<close>.
\<close>

theorem addToHostList_registry:
  "(case addToHostList arg c of
      (indices, c1) \<Rightarrow>
        indices = map (\<lambda>u. indexOf (urls c1) (sanitizeEndpointUrl u)) (as_array arg) \<and>
        (\<forall>u \<in> set (as_array arg).
           0 \<le> indexOf (urls c1) (sanitizeEndpointUrl u) \<and>
           nat (indexOf (urls c1) (sanitizeEndpointUrl u)) < length (urls c1) \<and>
           urls c1 ! nat (indexOf (urls c1) (sanitizeEndpointUrl u)) = sanitizeEndpointUrl u \<and>
           (\<forall>j < nat (indexOf (urls c1) (sanitizeEndpointUrl u)).
              urls c1 ! j \<noteq> sanitizeEndpointUrl u) \<and>
           (\<forall>u'. sanitizeEndpointUrl u' = sanitizeEndpointUrl u \<longrightarrow>
              addToHostList (One u') c1 =
                ([indexOf (urls c1) (sanitizeEndpointUrl u)], c1)))) \<and>
   urls (snd (addToHostList arg c)) =
     urls c @ filter (\<lambda>u. u \<notin> set (urls c)) (map sanitizeEndpointUrl (as_array arg)) \<and>
   hosts (snd (addToHostList arg c)) =
     hosts c @ map createRequest
       (filter (\<lambda>u. u \<notin> set (urls c)) (map sanitizeEndpointUrl (as_array arg))) \<and>
   ((\<forall>u \<in> set (as_array arg). sanitizeEndpointUrl u \<in> set (urls c)) \<longrightarrow>
      snd (addToHostList arg c) = c) \<and>
   sanitizeEndpointUrl (''tcp://'' @ r) = ''http://'' @ r \<and>
   sanitizeEndpointUrl (''ssl://'' @ r) = ''https://'' @ r"
proof -
  obtain indices c1 where r: "addToHostList arg c = (indices, c1)"
    by (cases "addToHostList arg c")
  have i: "indices = map (\<lambda>u. indexOf (urls c1) (sanitizeEndpointUrl u)) (as_array arg)"
    using addToHostList_fst[of arg c] r by simp
  have per_url:
    "0 \<le> indexOf (urls c1) (sanitizeEndpointUrl u) \<and>
     nat (indexOf (urls c1) (sanitizeEndpointUrl u)) < length (urls c1) \<and>
     urls c1 ! nat (indexOf (urls c1) (sanitizeEndpointUrl u)) = sanitizeEndpointUrl u \<and>
     (\<forall>j < nat (indexOf (urls c1) (sanitizeEndpointUrl u)).
        urls c1 ! j \<noteq> sanitizeEndpointUrl u) \<and>
     (\<forall>u'. sanitizeEndpointUrl u' = sanitizeEndpointUrl u \<longrightarrow>
        addToHostList (One u') c1 = ([indexOf (urls c1) (sanitizeEndpointUrl u)], c1))"
    if u: "u \<in> set (as_array arg)" for u
  proof -
    have known: "sanitizeEndpointUrl u \<in> set (urls c1)"
      using addToHostList_covers[OF u, of c] r by simp
    have again: "addToHostList (One u') c1 = ([indexOf (urls c1) (sanitizeEndpointUrl u)], c1)"
      if e: "sanitizeEndpointUrl u' = sanitizeEndpointUrl u" for u'
      using addToHostList_known[of "One u'" c1] known e by simp
    from indexOf_in[OF known] indexOf_first[OF known] again show ?thesis by blast
  qed
  have unchanged: "snd (addToHostList arg c) = c"
    if "\<forall>u \<in> set (as_array arg). sanitizeEndpointUrl u \<in> set (urls c)"
    using addToHostList_known[OF that] by simp
  show ?thesis
    using r i per_url unchanged sanitize_tcp sanitize_ssl
      addToHostList_urls[of arg c] addToHostList_hosts[of arg c]
    by simp
qed

theorem addToHostList_registry_witness:
  "fst (addToHostList (Many [''tcp://a:1'']) unregistered) = [0] \<and>
   urls (snd (addToHostList (Many [''tcp://a:1'']) unregistered)) = [''http://a:1''] \<and>
   addToHostList (One ''http://a:1'') (snd (addToHostList (Many [''tcp://a:1'']) unregistered))
     = ([0], snd (addToHostList (Many [''tcp://a:1'']) unregistered))"
proof -
  have u: "urls (snd (addToHostList (Many [''tcp://a:1'']) unregistered)) = [''http://a:1'']"
    by (simp add: addToHostList_urls unregistered_def Connection_def Let_def
        sanitizeEndpointUrl_def initial_urls_def addToHostList_def)
  have s: "sanitizeEndpointUrl ''http://a:1'' = sanitizeEndpointUrl ''tcp://a:1''"
    by (simp add: sanitizeEndpointUrl_def)
  have s2: "sanitizeEndpointUrl ''tcp://a:1'' = ''http://a:1''"
    by (simp add: sanitizeEndpointUrl_def)
  show ?thesis
    using addToHostList_registry[of "Many [''tcp://a:1'']" unregistered "[]"] u s s2
    by (simp add: split_beta)
qed

text \<open>
  C7. Under ROUND_ROBIN, when \<^verbatim>\<open>_runQueue\<close> dispatches a task that has no host of
  its own, the active host index becomes the old index plus one modulo the
  number of registered hosts, before the transport is called and whether or not
  the call can be issued; the call goes to the old index. The outcome of the
  call does not touch the index afterwards: failover is off, and a response that
  is not a leader redirect changes nothing. With three hosts and cap 1, three
  requests, each submitted after the previous one has resolved, are dispatched to
  hosts 0, 1 and 2.
\<close>

theorem round_robin_advance:
  "(loadBalancingStrategy w = ROUND_ROBIN \<and> queue w = t # q \<and> task_host t = None \<and>
    \<not> reached (activeTasks w) (maxTasks w) \<longrightarrow>
      activeHost (runQueue w) = js_rem (js_plus1 (activeHost w)) (length (hosts w)) \<and>
      (activeHost w = Num (int a) \<and> a < length (hosts w) \<longrightarrow>
         pending (runQueue w) = pending w @ [(t, a)] \<and>
         activeHost (runQueue w) = Num (int ((a + 1) mod length (hosts w))))) \<and>
   (\<not> useFailOver w' \<longrightarrow>
      activeHost (callback rt t' h (Failed e) w') = activeHost w') \<and>
   (statusCode r \<noteq> Some 503 \<or> \<not> truthy_str (res_headers r LEADER_ENDPOINT_HEADER) \<longrightarrow>
      activeHost (callback rt t' h (Responded r) w') = activeHost w') \<and>
   useFailOver (run rt (Connection rt cfg) evs) =
     (loadBalancingStrategy (run rt (Connection rt cfg) evs) \<noteq> ROUND_ROBIN) \<and>
   map snd (pending (run rt (Connection rt three_hosts_round_robin)
     [Request plain_get 1])) = [0] \<and>
   map snd (pending (run rt (Connection rt three_hosts_round_robin)
     [Request plain_get 1, Complete 0 (Responded ok_response), Request plain_get 2])) = [1] \<and>
   map snd (pending (run rt (Connection rt three_hosts_round_robin)
     [Request plain_get 1, Complete 0 (Responded ok_response), Request plain_get 2,
      Complete 0 (Responded ok_response), Request plain_get 3])) = [2]"
proof -
  have advance:
    "activeHost (runQueue w) = js_rem (js_plus1 (activeHost w)) (length (hosts w)) \<and>
     (activeHost w = Num (int a) \<and> a < length (hosts w) \<longrightarrow>
        pending (runQueue w) = pending w @ [(t, a)] \<and>
        activeHost (runQueue w) = Num (int ((a + 1) mod length (hosts w))))"
    if rr: "loadBalancingStrategy w = ROUND_ROBIN" and q: "queue w = t # q"
      and u: "task_host t = None" and c: "\<not> reached (activeTasks w) (maxTasks w)"
  proof -
    have first: "activeHost (runQueue w) = js_rem (js_plus1 (activeHost w)) (length (hosts w))"
      using runQueue_unpinned(1)[OF q c u] rr by simp
    have second: "pending (runQueue w) = pending w @ [(t, a)] \<and>
        activeHost (runQueue w) = Num (int ((a + 1) mod length (hosts w)))"
      if a: "activeHost w = Num (int a)" and v: "a < length (hosts w)"
    proof -
      have "host_index (hosts w) (activeHost w) = Some a"
        using a v by (simp add: host_index_def)
      moreover have "hosts w \<noteq> []" using v by auto
      ultimately show ?thesis
        using runQueue_unpinned(4)[OF q c u] first a
        by (simp add: js_advance del: js_plus1.simps js_rem.simps)
    qed
    from first second show ?thesis by blast
  qed
  have failed: "activeHost (callback rt t' h (Failed e) w') = activeHost w'"
    if "\<not> useFailOver w'"
    using that by (simp add: callback_failed)
  have resolved: "activeHost (callback rt t' h (Responded r) w') = activeHost w'"
    if "statusCode r \<noteq> Some 503 \<or> \<not> truthy_str (res_headers r LEADER_ENDPOINT_HEADER)"
    using callback_resolve[OF that, of rt t' h w'] by simp
  have derived: "useFailOver (run rt (Connection rt cfg) evs) =
     (loadBalancingStrategy (run rt (Connection rt cfg) evs) \<noteq> ROUND_ROBIN)"
    using run_config[of rt "Connection rt cfg" evs] by (simp add: Connection_useFailOver)
  show ?thesis
    using advance failed resolved derived sequential_round_robin[of rt] by blast
qed

theorem round_robin_advance_witness:
  "loadBalancingStrategy ((Connection node three_hosts_round_robin)
     \<lparr>queue := [makeTask node unregistered plain_get 1 None ''text/plain'']\<rparr>) = ROUND_ROBIN \<and>
   activeHost (runQueue ((Connection node three_hosts_round_robin)
     \<lparr>queue := [makeTask node unregistered plain_get 1 None ''text/plain'']\<rparr>)) = Num 1 \<and>
   map snd (pending (runQueue ((Connection node three_hosts_round_robin)
     \<lparr>queue := [makeTask node unregistered plain_get 1 None ''text/plain'']\<rparr>))) = [0] \<and>
   map snd (pending (run node (Connection node three_hosts_round_robin)
     [Request plain_get 1, Complete 0 (Responded ok_response), Request plain_get 2,
      Complete 0 (Responded ok_response), Request plain_get 3])) = [2]"
  using round_robin_advance[of
      "(Connection node three_hosts_round_robin)
         \<lparr>queue := [makeTask node unregistered plain_get 1 None ''text/plain'']\<rparr>"
      "makeTask node unregistered plain_get 1 None ''text/plain''" "[]" 0
      "Connection node three_hosts_round_robin" node
      "makeTask node unregistered plain_get 1 None ''text/plain''" 0 "Err ''refused''"
      ok_response three_hosts_round_robin "[]"]
  by (simp add: start_round_robin makeTask_fields plain_get_unpinned)

text \<open>
  C8 fails as stated, twice: with \<^verbatim>\<open>isJsonStream\<close> a body that is an object but
  not an array has no \<^verbatim>\<open>map\<close>, and \<^verbatim>\<open>request\<close> raises a TypeError without queueing a
  task; and a \<^verbatim>\<open>content-type\<close> among the per-call headers replaces the one the
  encoder chose.
\<close>

theorem structured_body_counterexample:
  "encodeBody node (plain_get\<lparr>opt_body := Some object_a1, opt_isJsonStream := True\<rparr>)
     = Inl TypeError \<and>
   request node (plain_get\<lparr>opt_body := Some object_a1, opt_isJsonStream := True\<rparr>) 1
       (Connection node single_host)
     = (Connection node single_host)\<lparr>log := [Throws TypeError]\<rparr> \<and>
   w_headers (task_options (makeTask node (Connection node single_host)
       (plain_get\<lparr>opt_body := Some object_a1, opt_headers := [''content-type'' \<mapsto> ''text/csv'']\<rparr>)
       1 (Some (JStr (stringify object_a1))) ''application/json'')) ''content-type''
     = Some ''text/csv''"
proof -
  have e: "encodeBody node (plain_get\<lparr>opt_body := Some object_a1, opt_isJsonStream := True\<rparr>)
     = Inl TypeError"
    by (simp add: encodeBody_def plain_get_def object_a1_def)
  show ?thesis
    by (simp add: e request_def start_single_host makeTask_fields content_type_header)
qed

text \<open>
  C8, amended. For every request with the binary flag unset: if the body is an
  array and the jsonStream flag is set, the wire body is each element
  JSON-encoded, joined with CRLF, with a trailing CRLF, and the content type is
  \<^verbatim>\<open>application/x-ldjson\<close>; if the body is an array or another object and the
  jsonStream flag is not set, the wire body is the single JSON encoding of the
  body and the content type is \<^verbatim>\<open>application/json\<close>. The task queued carries that
  body, and its \<^verbatim>\<open>content-type\<close> header is that content type unless the per-call
  headers have a \<^verbatim>\<open>content-type\<close> of their own. The body \<^verbatim>\<open>{"a":1}\<close> without the
  stream flag yields the wire body \<^verbatim>\<open>{"a":1}\<close>.
\<close>

theorem structured_body:
  "(\<not> opt_isBinary opts \<and> opt_body opts = Some b \<and>
    (b = JArr xs \<or> (b = JObj kvs \<and> \<not> opt_isJsonStream opts)) \<longrightarrow>
      (let wire = (if opt_isJsonStream opts
                   then join CRLF (map (JSON_stringify rt) xs) @ CRLF
                   else JSON_stringify rt b);
           contentType = (if opt_isJsonStream opts
                          then ''application/x-ldjson'' else ''application/json'');
           task = makeTask rt w opts cb (Some (JStr wire)) contentType
       in encodeBody rt opts = Inr (Some (JStr wire), contentType) \<and>
          request rt opts cb w = runQueue (w\<lparr>queue := queue w @ [task]\<rparr>) \<and>
          w_body (task_options task) = Some (JStr wire) \<and>
          w_headers (task_options task) ''content-type'' =
            (case opt_headers opts ''content-type'' of
               None \<Rightarrow> Some contentType | Some v \<Rightarrow> Some v))) \<and>
   encodeBody node (plain_get\<lparr>opt_body := Some object_a1\<rparr>)
     = Inr (Some (JStr ''{\"a\":1}''), ''application/json'')"
proof -
  have general:
    "let wire = (if opt_isJsonStream opts
                   then join CRLF (map (JSON_stringify rt) xs) @ CRLF
                   else JSON_stringify rt b);
           contentType = (if opt_isJsonStream opts
                          then ''application/x-ldjson'' else ''application/json'');
           task = makeTask rt w opts cb (Some (JStr wire)) contentType
       in encodeBody rt opts = Inr (Some (JStr wire), contentType) \<and>
          request rt opts cb w = runQueue (w\<lparr>queue := queue w @ [task]\<rparr>) \<and>
          w_body (task_options task) = Some (JStr wire) \<and>
          w_headers (task_options task) ''content-type'' =
            (case opt_headers opts ''content-type'' of
               None \<Rightarrow> Some contentType | Some v \<Rightarrow> Some v)"
    if a: "\<not> opt_isBinary opts \<and> opt_body opts = Some b \<and>
       (b = JArr xs \<or> (b = JObj kvs \<and> \<not> opt_isJsonStream opts))"
  proof -
    let ?wire = "if opt_isJsonStream opts
                   then join CRLF (map (JSON_stringify rt) xs) @ CRLF
                   else JSON_stringify rt b"
    let ?ct = "if opt_isJsonStream opts then ''application/x-ldjson'' else ''application/json''"
    have e: "encodeBody rt opts = Inr (Some (JStr ?wire), ?ct)"
      using a by (auto simp: encodeBody_def)
    have r: "request rt opts cb w =
        runQueue (w\<lparr>queue := queue w @ [makeTask rt w opts cb (Some (JStr ?wire)) ?ct]\<rparr>)"
      by (rule request_encoded[OF e])
    show ?thesis
      unfolding Let_def using e r by (simp add: makeTask_fields content_type_header)
  qed
  have example: "encodeBody node (plain_get\<lparr>opt_body := Some object_a1\<rparr>)
     = Inr (Some (JStr ''{\"a\":1}''), ''application/json'')"
    by (simp add: encodeBody_def plain_get_def node_def stringify_examples)
       (simp add: object_a1_def)
  from general example show ?thesis by blast
qed

theorem structured_body_witness:
  "encodeBody node
     (plain_get\<lparr>opt_body := Some (JArr [object_a1, object_b2]), opt_isJsonStream := True\<rparr>)
     = Inr (Some (JStr (''{\"a\":1}'' @ CRLF @ ''{\"b\":2}'' @ CRLF)), ''application/x-ldjson'') \<and>
   w_headers (task_options (makeTask node unregistered
       (plain_get\<lparr>opt_body := Some (JArr [object_a1, object_b2]), opt_isJsonStream := True\<rparr>) 1
       (Some (JStr (''{\"a\":1}'' @ CRLF @ ''{\"b\":2}'' @ CRLF))) ''application/x-ldjson''))
     ''content-type'' = Some ''application/x-ldjson''"
  using structured_body[of
      "plain_get\<lparr>opt_body := Some (JArr [object_a1, object_b2]), opt_isJsonStream := True\<rparr>"
      "JArr [object_a1, object_b2]" "[object_a1, object_b2]" "[]" node unregistered 1]
  by (simp add: plain_get_def node_def stringify_examples Let_def)

text \<open>
  C9 fails as stated: a leader redirect overwrites the host of the task, so a
  task submitted with host 0 is dispatched again to the redirect's index.
\<close>

theorem pinned_redispatch_counterexample:
  "opt_host pinned_get = Some 0 \<and>
   map snd (pending (run node (Connection node single_host)
     [Request pinned_get 1, Complete 0 (Responded leader_response)])) = [1]"
  using redirected_pinned_request[of node] by (simp add: pinned_get_host)

text \<open>
  C9, amended. The task built for a request carries the host index of the
  request options. When \<^verbatim>\<open>_runQueue\<close> dispatches a task that has a host index, the
  active host index is left as it is, under every strategy; the call goes to
  exactly that index when the registry has an entry there, and a TypeError is
  raised otherwise. So a request with a host index, submitted while the queue is
  empty and the cap is not reached, is dispatched at once to that index and
  changes only the task counter and the pending calls; no leader redirect is
  needed for that. A leader redirect replaces the host index of the task by the
  index of the redirect's URL, which the next dispatch of the task targets.
\<close>

theorem pinned_dispatch:
  "task_host (makeTask rt c opts cb b ct) = opt_host opts \<and>
   (queue w = t # q \<and> \<not> reached (activeTasks w) (maxTasks w) \<and> task_host t = Some h \<longrightarrow>
      activeHost (runQueue w) = activeHost w \<and>
      (0 \<le> h \<and> nat h < length (hosts w) \<longrightarrow>
         pending (runQueue w) = pending w @ [(t, nat h)] \<and> log (runQueue w) = log w) \<and>
      (\<not> (0 \<le> h \<and> nat h < length (hosts w)) \<longrightarrow>
         pending (runQueue w) = pending w \<and> log (runQueue w) = log w @ [Throws TypeError])) \<and>
   (encodeBody rt opts = Inr (b, ct) \<and> opt_host opts = Some h \<and> queue w = [] \<and>
    \<not> reached (activeTasks w) (maxTasks w) \<and> 0 \<le> h \<and> nat h < length (hosts w) \<longrightarrow>
      request rt opts cb w =
        w\<lparr>activeTasks := activeTasks w + 1,
          pending := pending w @ [(makeTask rt w opts cb b ct, nat h)]\<rparr>) \<and>
   (statusCode r = Some 503 \<and> res_headers r LEADER_ENDPOINT_HEADER = Some url \<and> url \<noteq> [] \<longrightarrow>
      queue (callback rt t host (Responded r) w) =
        queue w @ [t\<lparr>task_host :=
          Some (indexOf (urls (snd (addToHostList (One url) w))) (sanitizeEndpointUrl url))\<rparr>])"
proof -
  have carried: "task_host (makeTask rt c opts cb b ct) = opt_host opts"
    by (simp add: makeTask_fields)
  have dispatch:
    "activeHost (runQueue w) = activeHost w \<and>
      (0 \<le> h \<and> nat h < length (hosts w) \<longrightarrow>
         pending (runQueue w) = pending w @ [(t, nat h)] \<and> log (runQueue w) = log w) \<and>
      (\<not> (0 \<le> h \<and> nat h < length (hosts w)) \<longrightarrow>
         pending (runQueue w) = pending w \<and> log (runQueue w) = log w @ [Throws TypeError])"
    if q: "queue w = t # q" and c: "\<not> reached (activeTasks w) (maxTasks w)" and p: "task_host t = Some h"
  proof -
    have valid: "host_index (hosts w) (Num h) = Some (nat h)"
      if "0 \<le> h \<and> nat h < length (hosts w)"
      using that by (simp add: host_index_def)
    have invalid: "host_index (hosts w) (Num h) = None"
      if "\<not> (0 \<le> h \<and> nat h < length (hosts w))"
      using that by (auto simp: host_index_def)
    show ?thesis
    proof (cases "0 \<le> h \<and> nat h < length (hosts w)")
      case True
      from runQueue_pinned(4)[OF q c p valid[OF True]] runQueue_pinned(1)[OF q c p] True
      show ?thesis by simp
    next
      case False
      from runQueue_pinned(5)[OF q c p invalid[OF False]] runQueue_pinned(1)[OF q c p] False
      show ?thesis by simp
    qed
  qed
  have submitted: "request rt opts cb w =
        w\<lparr>activeTasks := activeTasks w + 1,
          pending := pending w @ [(makeTask rt w opts cb b ct, nat h)]\<rparr>"
    if "encodeBody rt opts = Inr (b, ct) \<and> opt_host opts = Some h \<and> queue w = [] \<and>
        \<not> reached (activeTasks w) (maxTasks w) \<and> 0 \<le> h \<and> nat h < length (hosts w)"
    using request_pinned[of rt opts b ct h w cb] that by blast
  have repinned: "queue (callback rt t host (Responded r) w) =
        queue w @ [t\<lparr>task_host :=
          Some (indexOf (urls (snd (addToHostList (One url) w))) (sanitizeEndpointUrl url))\<rparr>]"
    if "statusCode r = Some 503 \<and> res_headers r LEADER_ENDPOINT_HEADER = Some url \<and> url \<noteq> []"
    using callback_redirect[of r url rt t host w] that
    by (simp add: Let_def addToHostList_frame)
  from carried dispatch submitted repinned show ?thesis by blast
qed

theorem pinned_dispatch_witness:
  "loadBalancingStrategy (Connection node three_hosts_round_robin) = ROUND_ROBIN \<and>
   map snd (pending (request node (plain_get\<lparr>opt_host := Some 2\<rparr>) 1
     (Connection node three_hosts_round_robin))) = [2] \<and>
   activeHost (request node (plain_get\<lparr>opt_host := Some 2\<rparr>) 1
     (Connection node three_hosts_round_robin)) = Num 0"
proof -
  have e: "encodeBody node (plain_get\<lparr>opt_host := Some 2\<rparr>) = Inr (None, ''text/plain'')"
    by (simp add: encodeBody_def plain_get_def)
  show ?thesis
    using pinned_dispatch[of node unregistered "plain_get\<lparr>opt_host := Some 2\<rparr>" 1 None
        "''text/plain''" "Connection node three_hosts_round_robin"
        "makeTask node unregistered plain_get 1 None ''text/plain''" "[]" 2
        leader_response "''tcp://leader:8529''" 0] e
    by (simp add: start_round_robin)
qed

text \<open>
  C10. When the configured \<^verbatim>\<open>agentOptions.maxSockets\<close> is absent or falsy
  (\<^verbatim>\<open>undefined\<close>, \<^verbatim>\<open>null\<close>, \<^verbatim>\<open>false\<close>, 0 or NaN), the constructor sets \<open>maxTasks\<close> to 3,
  doubled to 6 when the \<^verbatim>\<open>keepAlive\<close> of the merged options is truthy, which it is
  whenever the configured \<^verbatim>\<open>keepAlive\<close> is truthy. With \<^verbatim>\<open>maxSockets: 0\<close> and
  \<^verbatim>\<open>keepAlive: true\<close> the cap is 6.
\<close>

theorem falsy_maxSockets:
  "(\<not> truthy_val (property (spread (cfg_agentOptions config)) ''maxSockets'') \<longrightarrow>
      maxTasks (Connection rt (CfgObject config)) =
        (if truthy_val (property (merged_agentOptions rt config) ''keepAlive'') then Finite 6 else Finite 3) \<and>
      (truthy_val (property (spread (cfg_agentOptions config)) ''keepAlive'') \<longrightarrow>
         maxTasks (Connection rt (CfgObject config)) = Finite 6)) \<and>
   maxTasks (Connection rt (CfgObject zero_sockets)) = Finite 6"
proof -
  have general:
    "maxTasks (Connection rt (CfgObject c)) =
        (if truthy_val (property (merged_agentOptions rt c) ''keepAlive'') then Finite 6 else Finite 3) \<and>
      (truthy_val (property (spread (cfg_agentOptions c)) ''keepAlive'') \<longrightarrow>
         maxTasks (Connection rt (CfgObject c)) = Finite 6)"
    if f: "\<not> truthy_val (property (spread (cfg_agentOptions c)) ''maxSockets'')" for c
  proof -
    have m: "maxTasks (Connection rt (CfgObject c)) =
        (if truthy_val (property (merged_agentOptions rt c) ''keepAlive'') then Finite 6 else Finite 3)"
      by (simp add: Connection_maxTasks initial_maxTasks_def Let_def merged_maxSockets_falsy[OF f])
    with merged_keepAlive_truthy[of c rt] show ?thesis by simp
  qed
  have z: "\<not> truthy_val (property (spread (cfg_agentOptions zero_sockets)) ''maxSockets'')"
    "truthy_val (property (spread (cfg_agentOptions zero_sockets)) ''keepAlive'')"
    by (simp_all add: zero_sockets_def empty_config_def spread_def property_def)
  from general[OF z(1)] z(2) have "maxTasks (Connection rt (CfgObject zero_sockets)) = Finite 6"
    by blast
  with general[of config] show ?thesis by blast
qed

theorem falsy_maxSockets_witness:
  "\<not> truthy_val (property (spread (cfg_agentOptions zero_sockets)) ''maxSockets'') \<and>
   truthy_val (property (spread (cfg_agentOptions zero_sockets)) ''keepAlive'') \<and>
   maxTasks (Connection node (CfgObject zero_sockets)) = Finite 6 \<and>
   maxTasks (Connection (node\<lparr>isBrowser := True\<rparr>) (CfgObject empty_config)) = Finite 3"
proof -
  have z: "\<not> truthy_val (property (spread (cfg_agentOptions zero_sockets)) ''maxSockets'')"
    "truthy_val (property (spread (cfg_agentOptions zero_sockets)) ''keepAlive'')"
    by (simp_all add: zero_sockets_def empty_config_def spread_def property_def)
  have e: "\<not> truthy_val (property (spread (cfg_agentOptions empty_config)) ''maxSockets'')"
    "\<not> truthy_val (property (merged_agentOptions (node\<lparr>isBrowser := True\<rparr>) empty_config)
          ''keepAlive'')"
    by (simp_all add: empty_config_def spread_def property_def merged_agentOptions_def)
  show ?thesis
    using falsy_maxSockets[of zero_sockets node]
      falsy_maxSockets[of empty_config "node\<lparr>isBrowser := True\<rparr>"] z e
    by (auto split: if_splits)
qed

end
